theory Spec2Isabelle
  imports Complex_Main "HOL-Library.Log_Nat"
begin

section \<open>JavaScript values used by the quote engine\<close>

text \<open>
  A JavaScript number is an IEEE double. The model keeps the four kinds of double apart
  (finite, the two infinities, NaN) and takes a finite double at its real value. The
  result of an operation is the exact result rounded to a double by \<open>fl\<close> below.
  Comparisons follow IEEE: every comparison with NaN is false. The two zeros are one
  value: the program divides by a price above zero or by a power of ten only, and
  comparisons, \<open>toFixed\<close>, \<open>Math.floor\<close> and \<open>BigInt\<close> do not tell the zeros apart.
\<close>

datatype jsnum = Fin real | PosInf | NegInf | NaN

subsection \<open>Rounding to a double\<close>

text \<open>The nearest integer, the even one of two that are equally near.\<close>

definition roundEven :: "real \<Rightarrow> int" where
  "roundEven x =
     (let n = \<lfloor>x\<rfloor>; r = x - of_int n
      in if r < 1 / 2 then n else if 1 / 2 < r then n + 1 else if even n then n else n + 1)"

definition pow2 :: "int \<Rightarrow> real" where
  "pow2 e = (if 0 \<le> e then 2 ^ nat e else 1 / 2 ^ nat (- e))"

text \<open>
  The binary exponent of a number other than zero: the \<open>e\<close> with
  \<open>2^e \<le> |x| < 2^(e+1)\<close>, computed from the bit length of an integer.
\<close>

definition binade :: "real \<Rightarrow> int" where
  "binade x =
     (if 1 \<le> \<bar>x\<bar> then bitlen \<lfloor>\<bar>x\<bar>\<rfloor> - 1 else - bitlen (\<lceil>1 / \<bar>x\<bar>\<rceil> - 1))"

text \<open>
  Rounding to the nearest double, ties to even (the rounding of every arithmetic
  operation of IEEE 754 binary64): 53 significant bits, on a grid no finer than
  \<open>2^-1074\<close> (subnormal numbers), and an infinity when the rounded value reaches
  \<open>2^1024\<close>.
\<close>

definition fl :: "real \<Rightarrow> jsnum" where
  "fl x =
     (if x = 0 then Fin 0
      else
        (let q = pow2 (max (binade x) (- 1022) - 52);
             y = of_int (roundEven (x / q)) * q
         in if 2 ^ 1024 \<le> \<bar>y\<bar> then (if 0 < x then PosInf else NegInf) else Fin y))"

subsection \<open>Comparisons and arithmetic\<close>

fun js_gt :: "jsnum \<Rightarrow> jsnum \<Rightarrow> bool" where
  "js_gt NaN _ = False"
| "js_gt _ NaN = False"
| "js_gt (Fin a) (Fin b) = (a > b)"
| "js_gt PosInf PosInf = False"
| "js_gt PosInf _ = True"
| "js_gt NegInf _ = False"
| "js_gt (Fin a) NegInf = True"
| "js_gt (Fin a) PosInf = False"

fun js_le :: "jsnum \<Rightarrow> jsnum \<Rightarrow> bool" where
  "js_le NaN _ = False"
| "js_le _ NaN = False"
| "js_le (Fin a) (Fin b) = (a \<le> b)"
| "js_le NegInf _ = True"
| "js_le PosInf PosInf = True"
| "js_le PosInf _ = False"
| "js_le (Fin a) PosInf = True"
| "js_le (Fin a) NegInf = False"

fun isFinite :: "jsnum \<Rightarrow> bool" where
  "isFinite (Fin _) = True"
| "isFinite _ = False"

fun isNaN :: "jsnum \<Rightarrow> bool" where
  "isNaN NaN = True"
| "isNaN _ = False"

text \<open>Truthiness of a number: every number but zero and NaN.\<close>

fun truthy_num :: "jsnum \<Rightarrow> bool" where
  "truthy_num (Fin a) = (a \<noteq> 0)"
| "truthy_num NaN = False"
| "truthy_num _ = True"

fun js_div :: "jsnum \<Rightarrow> jsnum \<Rightarrow> jsnum" where
  "js_div NaN _ = NaN"
| "js_div _ NaN = NaN"
| "js_div (Fin a) (Fin b) =
     (if b \<noteq> 0 then fl (a / b)
      else if a > 0 then PosInf else if a < 0 then NegInf else NaN)"
| "js_div (Fin a) PosInf = Fin 0"
| "js_div (Fin a) NegInf = Fin 0"
| "js_div PosInf (Fin b) = (if b < 0 then NegInf else PosInf)"
| "js_div NegInf (Fin b) = (if b < 0 then PosInf else NegInf)"
| "js_div PosInf _ = NaN"
| "js_div NegInf _ = NaN"

fun js_mul :: "jsnum \<Rightarrow> jsnum \<Rightarrow> jsnum" where
  "js_mul NaN _ = NaN"
| "js_mul _ NaN = NaN"
| "js_mul (Fin a) (Fin b) = fl (a * b)"
| "js_mul (Fin a) PosInf = (if a > 0 then PosInf else if a < 0 then NegInf else NaN)"
| "js_mul (Fin a) NegInf = (if a > 0 then NegInf else if a < 0 then PosInf else NaN)"
| "js_mul PosInf (Fin b) = (if b > 0 then PosInf else if b < 0 then NegInf else NaN)"
| "js_mul NegInf (Fin b) = (if b > 0 then NegInf else if b < 0 then PosInf else NaN)"
| "js_mul PosInf PosInf = PosInf"
| "js_mul NegInf NegInf = PosInf"
| "js_mul PosInf NegInf = NegInf"
| "js_mul NegInf PosInf = NegInf"

fun Math_floor :: "jsnum \<Rightarrow> jsnum" where
  "Math_floor (Fin a) = Fin (of_int \<lfloor>a\<rfloor>)"
| "Math_floor x = x"

text \<open>
  \<open>Math.pow(10, n)\<close> for a natural exponent. Up to \<open>n = 22\<close> the power \<open>10^n\<close> is a
  double, and it is the result. Beyond, the result is an approximation that ECMAScript
  leaves to the implementation (engines differ in the last bit); the model takes it from
  the world, as the parameter \<open>approx\<close>.
\<close>

definition Math_pow10 :: "(nat \<Rightarrow> jsnum) \<Rightarrow> nat \<Rightarrow> jsnum" where
  "Math_pow10 approx n = (if n \<le> 22 then Fin (10 ^ n) else approx n)"

text \<open>
  An exception is kept as its message, the only part of it a handler of this program
  reads. \<open>BigInt(x)\<close> raises a RangeError unless \<open>x\<close> is an integral finite number;
  its message names the number. The program applies it to the result of \<open>Math.floor\<close>
  only, so of the messages for a finite number, which show its digits, the model has none.
\<close>

type_synonym exn = string

fun BigInt :: "jsnum \<Rightarrow> exn + int" where
  "BigInt (Fin a) =
     (if of_int \<lfloor>a\<rfloor> = a then Inr \<lfloor>a\<rfloor>
      else Inl ''The number cannot be converted to a BigInt because it is not an integer'')"
| "BigInt PosInf =
     Inl ''The number Infinity cannot be converted to a BigInt because it is not an integer''"
| "BigInt NegInf =
     Inl ''The number -Infinity cannot be converted to a BigInt because it is not an integer''"
| "BigInt NaN =
     Inl ''The number NaN cannot be converted to a BigInt because it is not an integer''"

text \<open>Division of BigInts truncates towards zero.\<close>

definition bigint_div :: "int \<Rightarrow> int \<Rightarrow> int" where
  "bigint_div a b = sgn a * sgn b * (\<bar>a\<bar> div \<bar>b\<bar>)"

subsection \<open>Numbers as text\<close>

fun showNat :: "nat \<Rightarrow> string" where
  "showNat n =
     (if n < 10 then [''0123456789'' ! n]
      else showNat (n div 10) @ [''0123456789'' ! (n mod 10)])"

declare showNat.simps [simp del]

definition showInt :: "int \<Rightarrow> string" where
  "showInt i = (if i < 0 then ''-'' @ showNat (nat (- i)) else showNat (nat i))"

text \<open>
  \<open>x.toFixed(f)\<close>: the integer \<open>n\<close> with \<open>n / 10^f\<close> nearest to \<open>x\<close> (the larger one
  on a tie), written with \<open>f\<close> digits after the point. From \<open>10^21\<close> on JavaScript
  answers with the exponent form of \<open>Number::toString\<close>, which depends on the shortest
  digits of the double; the model takes that rendering as the parameter \<open>expForm\<close>.
\<close>

definition toFixed :: "(real \<Rightarrow> string) \<Rightarrow> nat \<Rightarrow> jsnum \<Rightarrow> string" where
  "toFixed expForm f x =
     (case x of
        NaN \<Rightarrow> ''NaN''
      | PosInf \<Rightarrow> ''Infinity''
      | NegInf \<Rightarrow> ''-Infinity''
      | Fin r \<Rightarrow>
          if \<bar>r\<bar> \<ge> 10 ^ 21 then expForm r
          else
            (let s = (if r < 0 then ''-'' else '''');
                 n = nat \<lfloor>\<bar>r\<bar> * 10 ^ f + 1 / 2\<rfloor>;
                 m = showNat n;
                 z = (if length m \<le> f then replicate (f + 1 - length m) (CHR ''0'') @ m else m);
                 k = length z
             in if f = 0 then s @ m
                else s @ take (k - f) z @ ''.'' @ drop (k - f) z))"

subsection \<open>Text as numbers: \<open>parseFloat\<close>\<close>

definition isDigit :: "char \<Rightarrow> bool" where
  "isDigit c = (c \<in> set ''0123456789'')"

text \<open>White space: tab, line feed, vertical tab, form feed, carriage return, space.\<close>

definition isWhite :: "char \<Rightarrow> bool" where
  "isWhite c = (c \<in> set [CHR 0x09, CHR 0x0A, CHR 0x0B, CHR 0x0C, CHR 0x0D, CHR '' ''])"

definition digitVal :: "char \<Rightarrow> nat" where
  "digitVal c =
     (case map_of
        [(CHR ''0'', 0), (CHR ''1'', 1), (CHR ''2'', 2), (CHR ''3'', 3), (CHR ''4'', 4),
         (CHR ''5'', 5), (CHR ''6'', 6), (CHR ''7'', 7), (CHR ''8'', 8), (CHR ''9'', 9)] c of
        Some d \<Rightarrow> d
      | None \<Rightarrow> 0)"

fun digitsVal :: "nat \<Rightarrow> string \<Rightarrow> nat" where
  "digitsVal acc [] = acc"
| "digitsVal acc (c # cs) = digitsVal (acc * 10 + digitVal c) cs"

definition startsWith :: "string \<Rightarrow> string \<Rightarrow> bool" where
  "startsWith s p = (take (length p) s = p)"

text \<open>
  The exponent part \<open>e[+-]ddd\<close> of a decimal literal; without digits after the \<open>e\<close>
  the literal ends before it and the exponent is \<open>0\<close>.
\<close>

definition exponentPart :: "string \<Rightarrow> int" where
  "exponentPart r =
     (if startsWith r ''e'' \<or> startsWith r ''E'' then
        (let r1 = tl r;
             neg = startsWith r1 ''-'';
             r2 = (if startsWith r1 ''-'' \<or> startsWith r1 ''+'' then tl r1 else r1);
             ds = takeWhile isDigit r2
         in if ds = [] then 0
            else if neg then - int (digitsVal 0 ds) else int (digitsVal 0 ds))
      else 0)"

definition scale10 :: "real \<Rightarrow> int \<Rightarrow> real" where
  "scale10 v e = (if e < 0 then v / 10 ^ nat (- e) else v * 10 ^ nat e)"

text \<open>
  \<open>parseFloat\<close> reads the longest prefix that is a decimal literal, after leading white
  space (of which the model knows the ASCII characters): a sign, then \<open>Infinity\<close> or
  digits with an optional fraction and exponent. No such prefix gives NaN. The result is
  the double nearest to the decimal value of the literal, which is what the engines
  compute (ECMAScript lets an engine ignore the digits after the twentieth).
\<close>

definition parseFloat :: "string \<Rightarrow> jsnum" where
  "parseFloat s =
     (let s1 = dropWhile isWhite s;
          neg = startsWith s1 ''-'';
          s2 = (if startsWith s1 ''-'' \<or> startsWith s1 ''+'' then tl s1 else s1)
      in if startsWith s2 ''Infinity'' then (if neg then NegInf else PosInf)
         else
           (let ip = takeWhile isDigit s2;
                r1 = dropWhile isDigit s2;
                fp = (if startsWith r1 ''.'' then takeWhile isDigit (tl r1) else []);
                r2 = (if startsWith r1 ''.'' then dropWhile isDigit (tl r1) else r1)
            in if ip = [] \<and> fp = [] then NaN
               else
                 (let v = real (digitsVal 0 ip) + real (digitsVal 0 fp) / 10 ^ length fp;
                      w = scale10 v (exponentPart r2)
                  in fl (if neg then - w else w))))"

subsection \<open>Strings\<close>

text \<open>\<open>toLowerCase\<close> on the ASCII letters, which is all an address or a symbol holds.\<close>

definition lowerChar :: "char \<Rightarrow> char" where
  "lowerChar c =
     (case map_of (zip ''ABCDEFGHIJKLMNOPQRSTUVWXYZ'' ''abcdefghijklmnopqrstuvwxyz'') c of
        Some l \<Rightarrow> l
      | None \<Rightarrow> c)"

definition toLowerCase :: "string \<Rightarrow> string" where
  "toLowerCase s = map lowerChar s"

fun str_includes :: "string \<Rightarrow> string \<Rightarrow> bool" where
  "str_includes [] sub = (sub = [])"
| "str_includes (c # cs) sub = (startsWith (c # cs) sub \<or> str_includes cs sub)"

text \<open>A string is truthy unless it is empty; a missing field is falsy.\<close>

fun truthy_str :: "string option \<Rightarrow> bool" where
  "truthy_str None = False"
| "truthy_str (Some s) = (s \<noteq> [])"

subsection \<open>Objects read by key\<close>

text \<open>
  \<open>obj[key]\<close> on an object literal, or on an object that \<open>JSON.parse\<close> built, finds
  the object's own property of that name, else the property that every such object
  inherits from \<open>Object.prototype\<close>, else \<open>undefined\<close>. The inherited properties are
  built-in functions, but for \<open>__proto__\<close>, which is the prototype object itself; all
  of them are truthy, none is a number or has a method \<open>find\<close>.
\<close>

definition objectPrototype :: "string list" where
  "objectPrototype =
     [''constructor'', ''__defineGetter__'', ''__defineSetter__'', ''hasOwnProperty'',
      ''__lookupGetter__'', ''__lookupSetter__'', ''isPrototypeOf'', ''propertyIsEnumerable'',
      ''toString'', ''valueOf'', ''__proto__'', ''toLocaleString'']"

datatype 'a property = Own 'a | Inherited string | Missing

definition getProperty :: "(string \<times> 'a) list \<Rightarrow> string \<Rightarrow> 'a property" where
  "getProperty obj key =
     (case map_of obj key of
        Some v \<Rightarrow> Own v
      | None \<Rightarrow> if key \<in> set objectPrototype then Inherited key else Missing)"

text \<open>The text of an inherited property, as a template literal or a property key shows it.\<close>

definition builtinText :: "string \<Rightarrow> string" where
  "builtinText key =
     (if key = ''__proto__'' then ''[object Object]''
      else if key = ''constructor'' then ''function Object() { [native code] }''
      else ''function '' @ key @ ''() { [native code] }'')"

section \<open>Amount conversion\<close>

text \<open>
  The three adapters share one block (\<open>getLiFiQuote\<close>, \<open>getBungeeQuotesBoth\<close>,
  \<open>getBungeeQuote\<close>): the unit price, the token amount, its validation and the
  conversion to base units through BigInt.

  \<^verbatim>\<open>let tokenPrice = fromTokenPrice && fromTokenPrice > 0 ? fromTokenPrice : 1;\<close>
\<close>

definition tokenPrice_of :: "jsnum option \<Rightarrow> jsnum" where
  "tokenPrice_of fromTokenPrice =
     (case fromTokenPrice of
        None \<Rightarrow> Fin 1
      | Some p \<Rightarrow> if truthy_num p \<and> js_gt p (Fin 0) then p else Fin 1)"

text \<open>\<^verbatim>\<open>let tokenAmount = usdAmount / tokenPrice;\<close>\<close>

definition tokenAmount_of :: "jsnum \<Rightarrow> jsnum \<Rightarrow> jsnum" where
  "tokenAmount_of usdAmount tokenPrice = js_div usdAmount tokenPrice"

text \<open>\<^verbatim>\<open>if (tokenAmount <= 0 || !isFinite(tokenAmount))\<close>\<close>

definition invalidAmount :: "jsnum \<Rightarrow> bool" where
  "invalidAmount tokenAmount = (js_le tokenAmount (Fin 0) \<or> \<not> isFinite tokenAmount)"

text \<open>
  \<^verbatim>\<open>const multiplier = BigInt(10) ** BigInt(fromTokenDecimals);
const tokenAmountBigInt = BigInt(Math.floor(tokenAmount * 1000000)) * multiplier / BigInt(1000000);\<close>
\<close>

definition tokenAmountBigInt :: "jsnum \<Rightarrow> nat \<Rightarrow> exn + int" where
  "tokenAmountBigInt tokenAmount fromTokenDecimals =
     (let multiplier = (10::int) ^ fromTokenDecimals
      in case BigInt (Math_floor (js_mul tokenAmount (Fin 1000000))) of
           Inl e \<Rightarrow> Inl e
         | Inr m \<Rightarrow> Inr (bigint_div (m * multiplier) 1000000))"

text \<open>
  The block as one function, under the name the specification gives it: the amount is
  rejected, or the conversion raises (which the outermost handler of the adapter
  catches), or the base units are returned.
\<close>

datatype conv_error = InvalidAmount | Thrown exn

definition toBaseUnits :: "jsnum \<Rightarrow> jsnum option \<Rightarrow> nat \<Rightarrow> conv_error + int" where
  "toBaseUnits usdAmount fromTokenPrice decimals =
     (let tokenPrice = tokenPrice_of fromTokenPrice;
          tokenAmount = tokenAmount_of usdAmount tokenPrice
      in if invalidAmount tokenAmount then Inl InvalidAmount
         else case tokenAmountBigInt tokenAmount decimals of
                Inl e \<Rightarrow> Inl (Thrown e)
              | Inr n \<Rightarrow> Inr n)"

section \<open>Upstream responses and the world around the engine\<close>

text \<open>
  Fields that the code reads without knowing their type (\<open>priceInUsd\<close>, \<open>priceUSD\<close>,
  the \<open>message\<close> of an error body) are kept as JavaScript values.
\<close>

datatype jsval = JUndefined | JNull | JBool bool | JNum jsnum | JStr string

fun truthy :: "jsval \<Rightarrow> bool" where
  "truthy JUndefined = False"
| "truthy JNull = False"
| "truthy (JBool b) = b"
| "truthy (JNum n) = truthy_num n"
| "truthy (JStr s) = (s \<noteq> [])"

text \<open>An entry of a provider's token list.\<close>

record token =
  address :: string
  symbol :: string
  decimals :: "nat option"
  priceInUsd :: jsval
  priceUSD :: jsval

text \<open>
  The body of a failed quote request, as \<open>JSON.parse\<close> and the reads of
  \<open>errorData.message\<close> see it: text that does not parse, the literal \<open>null\<close> (reading
  a property of it raises), or a value whose \<open>message\<close> is the argument.
\<close>

datatype errbody = BodyUnparsable | BodyNull | BodyObject jsval

text \<open>
  What \<open>fetch\<close> followed by \<open>response.json()\<close> gives: a rejection (the request or the
  parsing of the body raises), a response that is not \<open>ok\<close> with its status, or the
  parsed body of an \<open>ok\<close> response.
\<close>

datatype 'a response = Rejected exn | HttpError nat errbody | HttpOk 'a

text \<open>The spot-price feed answers with \<open>{ id: { usd: price } }\<close>.\<close>

type_synonym cg_prices = "(string \<times> jsnum option) list"

text \<open>The bridge aggregator's token list: \<open>{ success, result: { chainId: [token] } }\<close>.\<close>

record bungee_tokens =
  bt_success :: bool
  bt_result :: "(string \<times> token list) list option"

text \<open>The cross-chain aggregator's token list: \<open>{ tokens: { chainId: [token] } }\<close>.\<close>

type_synonym lifi_tokens = "(string \<times> token list) list option"

record lifi_estimate =
  e_toAmount :: "string option"
  e_toolName :: "string option"
  e_executionDuration :: "nat option"

record lifi_quote_body =
  q_estimate :: "lifi_estimate option"
  q_transactionRequest :: bool
  q_toAmount :: "string option"
  q_message :: "string option"
  q_error :: "string option"
  q_toolName :: "string option"
  q_toolDetailsName :: "string option"
  q_stepsToolName :: "string option"
  q_executionDuration :: "nat option"

record bungee_step =
  st_protocolDisplayName :: "string option"
  st_protocolName :: "string option"
  st_toolName :: "string option"

text \<open>
  A route of the bridge aggregator. \<open>r_output\<close> is \<open>None\<close> without an \<open>output\<close> object
  and \<open>Some a\<close> with one whose \<open>amount\<close> is \<open>a\<close>.
\<close>

record bungee_route =
  r_output :: "string option option"
  r_usedBridgeNames :: "string list option"
  r_bridgeName :: "string option"
  r_steps :: "bungee_step list option"
  r_estimatedTime :: "nat option"
  r_outputAmount :: "string option"
  r_toAmount :: "string option"
  r_returnAmount :: "string option"
  r_protocolDisplayName :: "string option"
  r_bridgeId :: "string option"
  r_serviceTime :: "nat option"
  r_estimatedProcessingTimeInSeconds :: "nat option"

record bungee_result =
  autoRoute :: "bungee_route option"
  manualRoutes :: "bungee_route list option"
  routes :: "bungee_route list option"

record bungee_quote_body =
  b_success :: bool
  b_message :: "string option"
  b_error :: "string option"
  b_result :: "bungee_result option"

text \<open>
  The parameters of a quote request and the requests the engine sends. The placeholder
  account is the \<open>fromAddress\<close> of the cross-chain aggregator and both the user and
  the receiver address of the bridge aggregator, whose request carries the constants
  \<open>enableManual=true\<close> and \<open>slippage=1\<close> as well. The key is present when the
  adapter sets the \<open>Authorization\<close> header.
\<close>

record quote_params =
  p_fromChain :: string
  p_toChain :: string
  p_fromToken :: string
  p_toToken :: string
  p_amount :: string
  p_account :: string
  p_apiKey :: "string option"

datatype request =
    CoinGeckoSimplePrice string
  | CoinGeckoTokenPrice string string
  | BungeeTokenList
  | LiFiTokenList "string option"
  | LiFiQuoteRequest quote_params
  | BungeeQuoteRequest quote_params

text \<open>
  The world: what each endpoint answers, given the requests made before, the readings of
  the clock in the order they are taken, the exponent rendering of large numbers, and
  the powers of ten above \<open>10^22\<close> as the engine computes them.
\<close>

record env =
  coingeckoSimple :: "request list \<Rightarrow> string \<Rightarrow> cg_prices response"
  coingeckoToken :: "request list \<Rightarrow> string \<Rightarrow> string \<Rightarrow> cg_prices response"
  bungeeTokenList :: "request list \<Rightarrow> bungee_tokens response"
  lifiTokenList :: "request list \<Rightarrow> string option \<Rightarrow> lifi_tokens response"
  lifiQuote :: "request list \<Rightarrow> quote_params \<Rightarrow> lifi_quote_body option response"
  bungeeQuote :: "request list \<Rightarrow> quote_params \<Rightarrow> bungee_quote_body response"
  clock :: "nat \<Rightarrow> int"
  expForm :: "real \<Rightarrow> string"
  pow10 :: "nat \<Rightarrow> jsnum"

text \<open>
  What \<open>getTokenPrice\<close> returns and caches: a number or, for a chain id that names a
  property inherited from \<open>Object.prototype\<close>, that property (see the native strategy).
\<close>

datatype price_value = Number jsnum | Builtin string

text \<open>
  \<^verbatim>\<open>const tokenPriceCache = new Map<string, { price: number, timestamp: number }>();
const PRICE_CACHE_DURATION = 5 * 60 * 1000;\<close>
\<close>

record cache_entry =
  price :: price_value
  timestamp :: int

definition PRICE_CACHE_DURATION :: int where
  "PRICE_CACHE_DURATION = 5 * 60 * 1000"

text \<open>
  The state: the process-wide price cache, the requests sent so far and the number of
  clock readings taken.
\<close>

record state =
  cache :: "string \<Rightarrow> cache_entry option"
  calls :: "request list"
  ticks :: nat

definition Date_now :: "env \<Rightarrow> state \<Rightarrow> int \<times> state" where
  "Date_now w s = (clock w (ticks s), s\<lparr>ticks := Suc (ticks s)\<rparr>)"

definition fetchCoinGeckoSimple :: "env \<Rightarrow> string \<Rightarrow> state \<Rightarrow> cg_prices response \<times> state" where
  "fetchCoinGeckoSimple w coinId s =
     (coingeckoSimple w (calls s) coinId, s\<lparr>calls := calls s @ [CoinGeckoSimplePrice coinId]\<rparr>)"

definition fetchCoinGeckoToken ::
  "env \<Rightarrow> string \<Rightarrow> string \<Rightarrow> state \<Rightarrow> cg_prices response \<times> state" where
  "fetchCoinGeckoToken w platform addr s =
     (coingeckoToken w (calls s) platform addr,
      s\<lparr>calls := calls s @ [CoinGeckoTokenPrice platform addr]\<rparr>)"

definition fetchBungeeTokenList :: "env \<Rightarrow> state \<Rightarrow> bungee_tokens response \<times> state" where
  "fetchBungeeTokenList w s =
     (bungeeTokenList w (calls s), s\<lparr>calls := calls s @ [BungeeTokenList]\<rparr>)"

definition fetchLiFiTokenList ::
  "env \<Rightarrow> string option \<Rightarrow> state \<Rightarrow> lifi_tokens response \<times> state" where
  "fetchLiFiTokenList w chainsParam s =
     (lifiTokenList w (calls s) chainsParam, s\<lparr>calls := calls s @ [LiFiTokenList chainsParam]\<rparr>)"

definition fetchLiFiQuote ::
  "env \<Rightarrow> quote_params \<Rightarrow> state \<Rightarrow> lifi_quote_body option response \<times> state" where
  "fetchLiFiQuote w ps s =
     (lifiQuote w (calls s) ps, s\<lparr>calls := calls s @ [LiFiQuoteRequest ps]\<rparr>)"

definition fetchBungeeQuote ::
  "env \<Rightarrow> quote_params \<Rightarrow> state \<Rightarrow> bungee_quote_body response \<times> state" where
  "fetchBungeeQuote w ps s =
     (bungeeQuote w (calls s) ps, s\<lparr>calls := calls s @ [BungeeQuoteRequest ps]\<rparr>)"

section \<open>Token addresses\<close>

definition zeroAddress :: string where
  "zeroAddress = ''0x0000000000000000000000000000000000000000''"

definition eAddress :: string where
  "eAddress = ''0xeeeeeeeeeeeeeeeeeeeeeeeeeeeeeeeeeeeeeeee''"

definition normalizeTokenAddress :: "string \<Rightarrow> bool \<Rightarrow> string" where
  "normalizeTokenAddress tok isForLiFi =
     (let lowerToken = toLowerCase tok
      in if lowerToken = zeroAddress \<or> lowerToken = eAddress
         then (if isForLiFi then ''0x0000000000000000000000000000000000000000''
               else ''0xEeeeeEeeeEeEeeEeEeEeeEEEeeeeEeeeeeeeEEeE'')
         else tok)"

definition isNativeToken :: "string \<Rightarrow> bool" where
  "isNativeToken tok =
     (let lowerToken = toLowerCase tok
      in lowerToken = zeroAddress \<or> lowerToken = eAddress)"

section \<open>Price resolution\<close>

subsection \<open>The static tables of \<open>getTokenPrice\<close>\<close>

definition nativeTokenSymbols :: "(string \<times> string) list" where
  "nativeTokenSymbols =
     [(''1'', ''ethereum''), (''56'', ''binancecoin''), (''137'', ''matic-network''),
      (''43114'', ''avalanche-2''), (''250'', ''fantom''), (''42161'', ''ethereum''),
      (''10'', ''ethereum''), (''8453'', ''ethereum''), (''130'', ''polygon'')]"

text \<open>The literals \<open>1.1\<close> and \<open>0.9\<close> are the doubles nearest to \<open>11/10\<close> and \<open>9/10\<close>.\<close>

definition nativePrices :: "(string \<times> jsnum) list" where
  "nativePrices =
     [(''1'', Fin 3800), (''56'', Fin 650), (''137'', fl (11 / 10)), (''43114'', Fin 42),
      (''250'', fl (9 / 10)), (''42161'', Fin 3800), (''10'', Fin 3800),
      (''8453'', Fin 3800), (''130'', fl (11 / 10))]"

definition knownTokenContracts :: "(string \<times> string) list" where
  "knownTokenContracts =
     [(''0x1f9840a85d5af5bf1d1762f925bdaddc4201f984'', ''uniswap''),
      (''0x514910771af9ca656af840dff83e8264ecf986ca'', ''chainlink''),
      (''0xa0b86a33e6e6061b7a5c41c6c7e8b5b9e4a2c5b3'', ''usd-coin''),
      (''0xdac17f958d2ee523a2206206994597c13d831ec7'', ''tether''),
      (''0x2260fac5e5542a773aa44fbcfedf7c193bc2c599'', ''wrapped-bitcoin''),
      (''0xc02aaa39b223fe8d0a0e5c4f27ead9083c756cc2'', ''weth''),
      (''0x4200000000000000000000000000000000000042'', ''optimism''),
      (''0x0b2c639c533813f4aa9d7837caf62653d097ff85'', ''usd-coin''),
      (''0x68f180fcce6836688e9084f035309e29bf0a2095'', ''wrapped-bitcoin''),
      (''0x4200000000000000000000000000000000000006'', ''weth''),
      (''0x7f5c764cbc14f9669b88837ca1490cca17c31607'', ''usd-coin''),
      (''0x350a791bfc2c21f9ed5d10980dad2e2638ffa7f6'', ''chainlink'')]"

definition platformMappings :: "(string \<times> string) list" where
  "platformMappings =
     [(''1'', ''ethereum''), (''56'', ''binance-smart-chain''), (''137'', ''polygon-pos''),
      (''43114'', ''avalanche''), (''250'', ''fantom''), (''42161'', ''arbitrum-one''),
      (''10'', ''optimistic-ethereum''), (''8453'', ''base'')]"

definition stablecoins :: "string list" where
  "stablecoins =
     [''0xa0b86a33e6e6061b7a5c41c6c7e8b5b9e4a2c5b3'',
      ''0xdac17f958d2ee523a2206206994597c13d831ec7'',
      ''0x6b175474e89094c44da98b954eedeac495271d0f'',
      ''0x4fabb145d64652a948d72533023f6e7a623c7c53'',
      ''0x8ac76a51cc950d9822d68b83fe1ad97b32cd580d'',
      ''0x0b2c639c533813f4aa9d7837caf62653d097ff85'',
      ''0x7f5c764cbc14f9669b88837ca1490cca17c31607'']"

definition uniAddress :: string where
  "uniAddress = ''0x1f9840a85d5af5bf1d1762f925bdaddc4201f984''"

subsection \<open>Reading the responses\<close>

text \<open>
  \<^verbatim>\<open>if (cgResponse.ok) { const cgData = await cgResponse.json();
  if (cgData[key] && cgData[key].usd) { const price = cgData[key].usd; ... return price; } }\<close>
  The price is taken when it is truthy; nothing else is asked of it. An inherited
  property has no \<open>usd\<close>.
\<close>

definition cgUsd :: "cg_prices response \<Rightarrow> string \<Rightarrow> jsnum option" where
  "cgUsd r key =
     (case r of
        HttpOk cgData \<Rightarrow>
          (case getProperty cgData key of
             Own (Some usd) \<Rightarrow> if truthy_num usd then Some usd else None
           | _ \<Rightarrow> None)
      | _ \<Rightarrow> None)"

text \<open>
  \<^verbatim>\<open>if (tokenListResponse.ok) { const tokenData = await tokenListResponse.json();
  if (tokenData.success && tokenData.result && tokenData.result[fromChain]) { ... } }\<close>
\<close>

definition bungeeChainTokens ::
  "bungee_tokens response \<Rightarrow> string \<Rightarrow> token list property" where
  "bungeeChainTokens r chain =
     (case r of
        HttpOk tokenData \<Rightarrow>
          (if bt_success tokenData
           then (case bt_result tokenData of
                   Some result \<Rightarrow> getProperty result chain
                 | None \<Rightarrow> Missing)
           else Missing)
      | _ \<Rightarrow> Missing)"

text \<open>
  \<^verbatim>\<open>if (lifiResponse.ok) { const lifiData = await lifiResponse.json();
  if (lifiData.tokens && lifiData.tokens[fromChain]) { ... } }\<close>
\<close>

definition lifiChainTokens :: "lifi_tokens response \<Rightarrow> string \<Rightarrow> token list property" where
  "lifiChainTokens r chain =
     (case r of
        HttpOk (Some tokens) \<Rightarrow> getProperty tokens chain
      | _ \<Rightarrow> Missing)"

definition findByAddress :: "token list \<Rightarrow> string \<Rightarrow> token option" where
  "findByAddress tokens addr = find (\<lambda>t. toLowerCase (address t) = addr) tokens"

definition findBySymbol :: "token list \<Rightarrow> string \<Rightarrow> token option" where
  "findBySymbol tokens sy = find (\<lambda>t. toLowerCase (symbol t) = sy) tokens"

text \<open>
  \<open>getTokenSymbolFromChainData\<close>: the symbol of the address in a second copy of the
  bridge aggregator's token list, or \<open>null\<close>. On an inherited property \<open>.find\<close>
  raises a TypeError, which the handler of the function turns into \<open>null\<close>.
\<close>

definition getTokenSymbolFromChainData ::
  "env \<Rightarrow> string \<Rightarrow> string \<Rightarrow> state \<Rightarrow> string option \<times> state" where
  "getTokenSymbolFromChainData w chainId tokenAddress s =
     (let (r, s1) = fetchBungeeTokenList w s
      in case bungeeChainTokens r chainId of
           Own tokens \<Rightarrow>
             (case findByAddress tokens (toLowerCase tokenAddress) of
                Some t \<Rightarrow> (Some (symbol t), s1)
              | None \<Rightarrow> (None, s1))
         | _ \<Rightarrow> (None, s1))"

text \<open>
  The token of a list for an address: by address; failing that by the symbol that
  \<open>getTokenSymbolFromChainData\<close> finds; failing that, for the UNI contract, by the
  symbol \<open>uni\<close>. Both token-list strategies run it.
\<close>

definition matchToken ::
  "env \<Rightarrow> token list \<Rightarrow> string \<Rightarrow> string \<Rightarrow> state \<Rightarrow> token option \<times> state" where
  "matchToken w tokens fromChain normalizedToken s =
     (case findByAddress tokens normalizedToken of
        Some t \<Rightarrow> (Some t, s)
      | None \<Rightarrow>
          (let (tokenSymbol, s1) = getTokenSymbolFromChainData w fromChain normalizedToken s;
               t1 = (if truthy_str tokenSymbol
                     then findBySymbol tokens (toLowerCase (the tokenSymbol)) else None);
               t2 = (if t1 = None \<and> normalizedToken = uniAddress
                     then findBySymbol tokens ''uni'' else t1)
           in (t2, s1)))"

text \<open>
  \<^verbatim>\<open>if (token.priceInUsd !== undefined && token.priceInUsd !== null &&
    typeof token.priceInUsd === 'number' && token.priceInUsd > 0 && !isNaN(token.priceInUsd))\<close>
\<close>

fun validPriceInUsd :: "jsval \<Rightarrow> jsnum option" where
  "validPriceInUsd (JNum n) = (if js_gt n (Fin 0) \<and> \<not> isNaN n then Some n else None)"
| "validPriceInUsd _ = None"

text \<open>
  \<^verbatim>\<open>if (token && token.priceUSD && typeof token.priceUSD === 'number' && token.priceUSD > 0)\<close>
\<close>

fun validPriceUSD :: "jsval \<Rightarrow> jsnum option" where
  "validPriceUSD (JNum n) = (if truthy_num n \<and> js_gt n (Fin 0) then Some n else None)"
| "validPriceUSD _ = None"

subsection \<open>The strategies, in the order \<open>getTokenPrice\<close> tries them\<close>

text \<open>
  A strategy returns the price it found, if any, and the state with the requests it
  sent. A rejected request, a response that is not \<open>ok\<close>, a body without the
  expected field and a TypeError on an inherited property all end in "no price": each
  strategy has its own handler. Every entry of the static tables is truthy, and so is
  every inherited property; the text of an inherited property is what the request and
  the key of the answer are built from.
\<close>

type_synonym strategy = "state \<Rightarrow> price_value option \<times> state"

text \<open>
  Native token: the spot-price feed, then the table of approximate prices, whose
  inherited properties are returned like its entries.
\<close>

definition nativeStrategy :: "env \<Rightarrow> string \<Rightarrow> string \<Rightarrow> strategy" where
  "nativeStrategy w fromChain fromToken s =
     (if isNativeToken fromToken then
        (let (r, s1) =
               (case getProperty nativeTokenSymbols fromChain of
                  Own coinId \<Rightarrow>
                    (let (resp, s') = fetchCoinGeckoSimple w coinId s
                     in (cgUsd resp coinId, s'))
                | Inherited k \<Rightarrow>
                    (let (resp, s') = fetchCoinGeckoSimple w (builtinText k) s
                     in (cgUsd resp (builtinText k), s'))
                | Missing \<Rightarrow> (None, s))
         in case r of
              Some p \<Rightarrow> (Some (Number p), s1)
            | None \<Rightarrow>
                (case getProperty nativePrices fromChain of
                   Own fallbackPrice \<Rightarrow>
                     (if truthy_num fallbackPrice then Some (Number fallbackPrice) else None, s1)
                 | Inherited k \<Rightarrow> (Some (Builtin k), s1)
                 | Missing \<Rightarrow> (None, s1)))
      else (None, s))"

text \<open>Strategy 1: the bridge aggregator's token list.\<close>

definition bungeeStrategy :: "env \<Rightarrow> string \<Rightarrow> string \<Rightarrow> strategy" where
  "bungeeStrategy w fromChain normalizedToken s =
     (let (r, s1) = fetchBungeeTokenList w s
      in case bungeeChainTokens r fromChain of
           Own tokens \<Rightarrow>
             (let (tok, s2) = matchToken w tokens fromChain normalizedToken s1
              in case tok of
                   None \<Rightarrow> (None, s2)
                 | Some t \<Rightarrow> (map_option Number (validPriceInUsd (priceInUsd t)), s2))
         | _ \<Rightarrow> (None, s1))"

text \<open>Strategy 2: the cross-chain aggregator's token list for the chain.\<close>

definition lifiStrategy :: "env \<Rightarrow> string \<Rightarrow> string \<Rightarrow> strategy" where
  "lifiStrategy w fromChain normalizedToken s =
     (let (r, s1) = fetchLiFiTokenList w (Some fromChain) s
      in case lifiChainTokens r fromChain of
           Own tokens \<Rightarrow>
             (let (tok, s2) = matchToken w tokens fromChain normalizedToken s1
              in case tok of
                   None \<Rightarrow> (None, s2)
                 | Some t \<Rightarrow> (map_option Number (validPriceUSD (priceUSD t)), s2))
         | _ \<Rightarrow> (None, s1))"

text \<open>Strategy 3: the spot-price feed, by the id of a known contract.\<close>

definition contractStrategy :: "env \<Rightarrow> string \<Rightarrow> strategy" where
  "contractStrategy w normalizedToken s =
     (case getProperty knownTokenContracts normalizedToken of
        Own coinId \<Rightarrow>
          (let (resp, s1) = fetchCoinGeckoSimple w coinId s
           in (map_option Number (cgUsd resp coinId), s1))
      | Inherited k \<Rightarrow>
          (let (resp, s1) = fetchCoinGeckoSimple w (builtinText k) s
           in (map_option Number (cgUsd resp (builtinText k)), s1))
      | Missing \<Rightarrow> (None, s))"

text \<open>Strategy 4: the spot-price feed, by platform and contract address.\<close>

definition platformStrategy :: "env \<Rightarrow> string \<Rightarrow> string \<Rightarrow> string \<Rightarrow> strategy" where
  "platformStrategy w fromChain fromToken normalizedToken s =
     (case getProperty platformMappings fromChain of
        Own platform \<Rightarrow>
          (if \<not> isNativeToken fromToken then
             (let (resp, s1) = fetchCoinGeckoToken w platform normalizedToken s
              in (map_option Number (cgUsd resp normalizedToken), s1))
           else (None, s))
      | Inherited k \<Rightarrow>
          (if \<not> isNativeToken fromToken then
             (let (resp, s1) = fetchCoinGeckoToken w (builtinText k) normalizedToken s
              in (map_option Number (cgUsd resp normalizedToken), s1))
           else (None, s))
      | Missing \<Rightarrow> (None, s))"

text \<open>Strategy 5 (the stablecoin list) and the final fallback both yield \<open>1.0\<close>.\<close>

definition lastResort :: "string \<Rightarrow> jsnum" where
  "lastResort normalizedToken = (if normalizedToken \<in> set stablecoins then Fin 1 else Fin 1)"

definition orElse :: "strategy \<Rightarrow> strategy \<Rightarrow> strategy" where
  "orElse f g s = (case f s of (Some p, s1) \<Rightarrow> (Some p, s1) | (None, s1) \<Rightarrow> g s1)"

definition cascade :: "env \<Rightarrow> string \<Rightarrow> string \<Rightarrow> strategy" where
  "cascade w fromChain fromToken =
     (let normalizedToken = toLowerCase fromToken
      in orElse (nativeStrategy w fromChain fromToken)
        (orElse (bungeeStrategy w fromChain normalizedToken)
        (orElse (lifiStrategy w fromChain normalizedToken)
        (orElse (contractStrategy w normalizedToken)
                (platformStrategy w fromChain fromToken normalizedToken)))))"

text \<open>\<^verbatim>\<open>tokenPriceCache.set(cacheKey, { price, timestamp: Date.now() });\<close>\<close>

definition cacheSet :: "env \<Rightarrow> string \<Rightarrow> price_value \<Rightarrow> state \<Rightarrow> state" where
  "cacheSet w cacheKey p s =
     (let (t, s1) = Date_now w s
      in s1\<lparr>cache := (cache s1)(cacheKey \<mapsto> \<lparr>price = p, timestamp = t\<rparr>)\<rparr>)"

definition cacheKey_of :: "string \<Rightarrow> string \<Rightarrow> string" where
  "cacheKey_of fromChain fromToken = fromChain @ ''-'' @ toLowerCase fromToken"

text \<open>
  The part of \<open>getTokenPrice\<close> after the cache check: the first price a strategy
  finds, else \<open>1.0\<close>, stored in the cache before it is returned.
\<close>

definition resolvePrice ::
  "env \<Rightarrow> string \<Rightarrow> string \<Rightarrow> state \<Rightarrow> price_value \<times> state" where
  "resolvePrice w fromChain fromToken s =
     (let cacheKey = cacheKey_of fromChain fromToken
      in case cascade w fromChain fromToken s of
           (Some p, s1) \<Rightarrow> (p, cacheSet w cacheKey p s1)
         | (None, s1) \<Rightarrow>
             (let p = Number (lastResort (toLowerCase fromToken))
              in (p, cacheSet w cacheKey p s1)))"

text \<open>
  \<open>getTokenPrice\<close>. The clock is read for the cache check only when the key has an
  entry. For string arguments no statement outside the strategies' own handlers raises,
  so the outermost handler (which returns \<open>1.0\<close> without a cache write) has no
  path leading to it.
\<close>

definition getTokenPrice ::
  "env \<Rightarrow> string \<Rightarrow> string \<Rightarrow> state \<Rightarrow> price_value \<times> state" where
  "getTokenPrice w fromChain fromToken s =
     (case cache s (cacheKey_of fromChain fromToken) of
        Some cachedPrice \<Rightarrow>
          (let (now, s1) = Date_now w s
           in if now - timestamp cachedPrice < PRICE_CACHE_DURATION
              then (price cachedPrice, s1)
              else resolvePrice w fromChain fromToken s1)
      | None \<Rightarrow> resolvePrice w fromChain fromToken s)"

section \<open>Quote adapters\<close>

text \<open>The quote every adapter returns; \<open>route\<close> and \<open>error\<close> are optional fields.\<close>

record quote =
  outputAmount :: string
  estimatedTime :: string
  provider :: string
  route :: "string option"
  error :: "string option"
  inputTokenAmount :: string
  tokenPrice :: jsnum

definition errorQuote :: "string \<Rightarrow> string \<Rightarrow> string \<Rightarrow> jsnum \<Rightarrow> quote" where
  "errorQuote prov err inp tp =
     \<lparr>outputAmount = ''0.0000'', estimatedTime = ''N/A'', provider = prov, route = None,
      error = Some err, inputTokenAmount = inp, tokenPrice = tp\<rparr>"

text \<open>\<open>a || b\<close> for an optional string \<open>a\<close>, and for an optional number.\<close>

definition orStr :: "string option \<Rightarrow> string \<Rightarrow> string" where
  "orStr a b = (if truthy_str a then the a else b)"

fun orNat :: "nat option \<Rightarrow> nat \<Rightarrow> nat" where
  "orNat None b = b"
| "orNat (Some n) b = (if n = 0 then b else n)"

fun truthy_nat :: "nat option \<Rightarrow> bool" where
  "truthy_nat None = False"
| "truthy_nat (Some n) = (n \<noteq> 0)"

text \<open>\<^verbatim>\<open>`${Math.ceil(seconds / 60)} min`\<close>\<close>

definition minutes :: "nat \<Rightarrow> string" where
  "minutes seconds = showNat ((seconds + 59) div 60) @ '' min''"

text \<open>
  \<^verbatim>\<open>const info = chainTokens.find(t => t.address.toLowerCase() === tok.toLowerCase());
if (info) { decimals = info.decimals || 18; }\<close>
  with \<open>18\<close> as the value to start from.
\<close>

definition tokenDecimals :: "token list \<Rightarrow> string \<Rightarrow> nat" where
  "tokenDecimals chainTokens tok =
     (case findByAddress chainTokens (toLowerCase tok) of
        Some info \<Rightarrow> orNat (decimals info) 18
      | None \<Rightarrow> 18)"

text \<open>
  The decimals of the two tokens of a quote, as the adapters read them from a token list
  in one \<open>try\<close> block, the source token first:
  \<^verbatim>\<open>const fromChainTokens = list[fromChain];
if (fromChainTokens) { ... fromTokenDecimals = ... }
const toChainTokens = list[toChain];
if (toChainTokens) { ... toTokenDecimals = ... }\<close>
  On an inherited property \<open>.find\<close> raises a TypeError and the handler of the block
  leaves at \<open>18\<close> what was not assigned before.
\<close>

definition listDecimals ::
  "(string \<Rightarrow> token list property) \<Rightarrow> string \<Rightarrow> string \<Rightarrow> string \<Rightarrow> string \<Rightarrow> nat \<times> nat" where
  "listDecimals chainTokens fromChain fromTok toChain toTok =
     (let toTokenDecimals =
            (case chainTokens toChain of
               Own toChainTokens \<Rightarrow> tokenDecimals toChainTokens toTok
             | _ \<Rightarrow> 18)
      in case chainTokens fromChain of
           Own fromChainTokens \<Rightarrow> (tokenDecimals fromChainTokens fromTok, toTokenDecimals)
         | Inherited k \<Rightarrow> (18, 18)
         | Missing \<Rightarrow> (18, toTokenDecimals))"

text \<open>
  \<open>errorData.message?.includes(x)\<close>: false without a message, the substring test on a
  string, a TypeError (\<open>None\<close>) on a number or a boolean; reading \<open>message\<close> itself
  raises when the body is \<open>null\<close>.
\<close>

fun msgIncludes :: "jsval \<Rightarrow> string \<Rightarrow> bool option" where
  "msgIncludes JUndefined x = Some False"
| "msgIncludes JNull x = Some False"
| "msgIncludes (JStr m) x = Some (str_includes m x)"
| "msgIncludes (JNum n) x = None"
| "msgIncludes (JBool b) x = None"

fun bodyIncludes :: "errbody \<Rightarrow> string \<Rightarrow> bool option" where
  "bodyIncludes (BodyObject m) x = msgIncludes m x"
| "bodyIncludes BodyNull x = None"
| "bodyIncludes BodyUnparsable x = None"

subsection \<open>The cross-chain aggregator: \<open>getLiFiQuote\<close>\<close>

text \<open>The labels of the handler that runs when the error body cannot be used.\<close>

definition lifiStatusLabel :: "nat \<Rightarrow> string" where
  "lifiStatusLabel status =
     (if status = 429 then ''Rate limited''
      else if status = 404 then ''No routes found''
      else if status = 400 then ''Bad request''
      else if status = 500 then ''Server error ('' @ showNat status @ '')''
      else if status = 503 then ''Service unavailable ('' @ showNat status @ '')''
      else ''Error '' @ showNat status)"

definition lifiUserFriendlyError :: "nat \<Rightarrow> errbody \<Rightarrow> string" where
  "lifiUserFriendlyError status body =
     (case body of
        BodyUnparsable \<Rightarrow> lifiStatusLabel status
      | BodyNull \<Rightarrow> lifiStatusLabel status
      | BodyObject m \<Rightarrow>
          if status = 429 then ''Rate limited - please wait''
          else if status = 404 then
            (case msgIncludes m ''No available quotes'' of
               None \<Rightarrow> lifiStatusLabel status
             | Some True \<Rightarrow> ''No routes available''
             | Some False \<Rightarrow>
                 (case msgIncludes m ''Price impact'' of
                    None \<Rightarrow> lifiStatusLabel status
                  | Some True \<Rightarrow> ''Amount too large''
                  | Some False \<Rightarrow> ''Route not found''))
          else if status = 400 then
            (case msgIncludes m ''isBigNumberish'' of
               None \<Rightarrow> lifiStatusLabel status
             | Some True \<Rightarrow> ''Invalid amount format''
             | Some False \<Rightarrow> ''Invalid request'')
          else if status = 500 then ''Server error ('' @ showNat status @ '')''
          else ''Service unavailable ('' @ showNat status @ '')'')"

text \<open>
  \<^verbatim>\<open>const estimate = data.estimate || {};
const toAmount = estimate.toAmount || data.toAmount || "0";\<close>
\<close>

definition lifiEstimate :: "lifi_quote_body \<Rightarrow> lifi_estimate" where
  "lifiEstimate d =
     (case q_estimate d of
        Some e \<Rightarrow> e
      | None \<Rightarrow> \<lparr>e_toAmount = None, e_toolName = None, e_executionDuration = None\<rparr>)"

definition lifiToAmount :: "lifi_quote_body \<Rightarrow> string" where
  "lifiToAmount d = orStr (e_toAmount (lifiEstimate d)) (orStr (q_toAmount d) ''0'')"

text \<open>The body of an \<open>ok\<close> response, from \<open>const data = await response.json()\<close> on.\<close>

definition lifiSuccess :: "env \<Rightarrow> lifi_quote_body option \<Rightarrow> nat \<Rightarrow> string \<Rightarrow> jsnum \<Rightarrow> quote" where
  "lifiSuccess w data toTokenDecimals inp tp =
     (case data of
        None \<Rightarrow> errorQuote ''LiFi'' ''No routes found'' inp tp
      | Some d \<Rightarrow>
          if q_estimate d = None \<and> \<not> q_transactionRequest d
          then errorQuote ''LiFi'' (orStr (q_message d) (orStr (q_error d) ''No routes found'')) inp tp
          else if lifiToAmount d = ''0'' \<or> lifiToAmount d = []
          then errorQuote ''LiFi''
                 (orStr (q_message d) (orStr (q_error d) ''Insufficient liquidity'')) inp tp
          else
            (let outputAmount =
                   toFixed (expForm w) 2
                     (js_div (parseFloat (lifiToAmount d)) (Math_pow10 (pow10 w) toTokenDecimals));
                 toolName =
                   orStr (q_toolName d)
                     (orStr (e_toolName (lifiEstimate d))
                        (orStr (q_toolDetailsName d)
                           (orStr (q_stepsToolName d) ''LiFi Bridge'')));
                 duration =
                   orNat (e_executionDuration (lifiEstimate d))
                     (orNat (q_executionDuration d) 120)
             in \<lparr>outputAmount = outputAmount, estimatedTime = minutes duration,
                  provider = toolName, route = Some toolName, error = None,
                  inputTokenAmount = inp, tokenPrice = tp\<rparr>))"

text \<open>
  From the response of the quote request to the quote. A rejection reaches the
  outermost handler of \<open>getLiFiQuote\<close>, which reports the message of the exception.
\<close>

definition lifiQuoteOf ::
  "env \<Rightarrow> lifi_quote_body option response \<Rightarrow> nat \<Rightarrow> jsnum \<Rightarrow> jsnum \<Rightarrow> quote" where
  "lifiQuoteOf w resp toTokenDecimals tokenAmount tp =
     (case resp of
        Rejected e \<Rightarrow> errorQuote ''LiFi'' e ''0'' (Fin 0)
      | HttpError status body \<Rightarrow>
          errorQuote ''LiFi'' (lifiUserFriendlyError status body)
            (toFixed (expForm w) 6 tokenAmount) tp
      | HttpOk data \<Rightarrow>
          lifiSuccess w data toTokenDecimals (toFixed (expForm w) 6 tokenAmount) tp)"

definition placeholderAccount :: string where
  "placeholderAccount = ''0xd8dA6BF26964aF9D7eEd9e03E53415D37aA96045''"

definition getLiFiQuote ::
  "env \<Rightarrow> string \<Rightarrow> string \<Rightarrow> string \<Rightarrow> string \<Rightarrow> jsnum \<Rightarrow> string option \<Rightarrow> jsnum option
     \<Rightarrow> jsnum option \<Rightarrow> state \<Rightarrow> quote \<times> state" where
  "getLiFiQuote w fromChain fromToken toChain toToken usdAmount apiKey fromTokenPrice
     toTokenPrice s =
     (let lifiFromToken = normalizeTokenAddress fromToken True;
          lifiToToken = normalizeTokenAddress toToken True;
          (tokenList, s1) = fetchLiFiTokenList w None s;
          (fromTokenDecimals, toTokenDecimals) =
            listDecimals (lifiChainTokens tokenList) fromChain lifiFromToken toChain lifiToToken;
          tp = tokenPrice_of fromTokenPrice;
          tokenAmount = tokenAmount_of usdAmount tp
      in case toBaseUnits usdAmount fromTokenPrice fromTokenDecimals of
           Inl InvalidAmount \<Rightarrow> (errorQuote ''LiFi'' ''Invalid amount'' ''0'' tp, s1)
         | Inl (Thrown e) \<Rightarrow> (errorQuote ''LiFi'' e ''0'' (Fin 0), s1)
         | Inr n \<Rightarrow>
             (let ps = \<lparr>p_fromChain = fromChain, p_toChain = toChain,
                        p_fromToken = lifiFromToken, p_toToken = lifiToToken,
                        p_amount = showInt n, p_account = placeholderAccount,
                        p_apiKey = (if truthy_str apiKey then apiKey else None)\<rparr>;
                  (resp, s2) = fetchLiFiQuote w ps s1
              in (lifiQuoteOf w resp toTokenDecimals tokenAmount tp, s2)))"

subsection \<open>The bridge aggregator: route selection\<close>

text \<open>\<open>route.output && route.output.amount\<close>, and the amount when that holds.\<close>

definition hasAmount :: "bungee_route \<Rightarrow> bool" where
  "hasAmount r = (case r_output r of Some a \<Rightarrow> truthy_str a | None \<Rightarrow> False)"

definition amountOf :: "bungee_route \<Rightarrow> string" where
  "amountOf r = (case r_output r of Some (Some a) \<Rightarrow> a | _ \<Rightarrow> [])"

text \<open>
  The loop over \<open>result.manualRoutes\<close>, the same in \<open>getBungeeQuotesBoth\<close> and
  \<open>getBungeeQuote\<close>:
  \<^verbatim>\<open>let bestManualRoute = null; let bestOutputAmount = 0;
for (let i = 0; i < result.manualRoutes.length; i++) {
  const route = result.manualRoutes[i];
  if (route.output && route.output.amount) {
    const outputAmount = parseFloat(route.output.amount);
    if (outputAmount > bestOutputAmount) { bestOutputAmount = outputAmount; bestManualRoute = route; }
  }
}\<close>
  The function that parses the amount is a parameter, so that what is proved of the loop
  holds for \<open>parseFloat\<close> with its rounding to a double as well.
\<close>

fun manualLoop ::
  "(string \<Rightarrow> jsnum) \<Rightarrow> bungee_route list \<Rightarrow> jsnum \<times> bungee_route option
     \<Rightarrow> jsnum \<times> bungee_route option" where
  "manualLoop pf [] acc = acc"
| "manualLoop pf (r # rs) (bestOutputAmount, bestManualRoute) =
     (if hasAmount r \<and> js_gt (pf (amountOf r)) bestOutputAmount
      then manualLoop pf rs (pf (amountOf r), Some r)
      else manualLoop pf rs (bestOutputAmount, bestManualRoute))"

definition bestManual ::
  "(string \<Rightarrow> jsnum) \<Rightarrow> bungee_route list \<Rightarrow> jsnum \<times> bungee_route option" where
  "bestManual pf rs = manualLoop pf rs (Fin 0, None)"

text \<open>\<open>list && list.length > 0\<close>\<close>

fun nonEmpty :: "'a list option \<Rightarrow> bool" where
  "nonEmpty None = False"
| "nonEmpty (Some xs) = (xs \<noteq> [])"

text \<open>
  The choice of \<open>bestRoute\<close> in \<open>getBungeeQuote\<close>, with its \<open>routeType\<close>:
  \<^verbatim>\<open>if (result.autoRoute && result.autoRoute.output) { bestRoute = result.autoRoute; ... }
else if (result.manualRoutes && result.manualRoutes.length > 0) { ... loop ...
  if (bestManualRoute) { bestRoute = bestManualRoute; ... } }
else if (result.routes && result.routes.length > 0) { bestRoute = result.routes[0]; ... }\<close>
\<close>

definition hasAutoRoute :: "bungee_result \<Rightarrow> bool" where
  "hasAutoRoute result =
     (case autoRoute result of Some ar \<Rightarrow> r_output ar \<noteq> None | None \<Rightarrow> False)"

definition bestOfBoth ::
  "(string \<Rightarrow> jsnum) \<Rightarrow> bungee_result \<Rightarrow> (bungee_route \<times> string) option" where
  "bestOfBoth pf result =
     (if hasAutoRoute result then Some (the (autoRoute result), ''Auto (Fastest)'')
      else if nonEmpty (manualRoutes result) then
        (case snd (bestManual pf (the (manualRoutes result))) of
           Some r \<Rightarrow> Some (r, ''Manual (Best Rate)'')
         | None \<Rightarrow> None)
      else if nonEmpty (routes result) then Some (hd (the (routes result)), ''Legacy'')
      else None)"

subsection \<open>The bridge aggregator: request and error labels\<close>

definition bungeeStatusLabel :: "nat \<Rightarrow> string" where
  "bungeeStatusLabel status =
     (if status = 429 then ''Rate limited''
      else if status = 400 then ''Bad request''
      else if status = 404 then ''Not found''
      else if status = 500 then ''Server error''
      else ''Service unavailable'')"

definition bungeeUserFriendlyError :: "nat \<Rightarrow> errbody \<Rightarrow> string" where
  "bungeeUserFriendlyError status body =
     (if body = BodyUnparsable then bungeeStatusLabel status
      else if status = 429 then ''Rate limited - please wait''
      else if status = 400 then
        (case bodyIncludes body ''BigNumberish'' of
           None \<Rightarrow> bungeeStatusLabel status
         | Some True \<Rightarrow> ''Invalid amount format''
         | Some False \<Rightarrow>
             (case bodyIncludes body ''fromAmount'' of
                None \<Rightarrow> bungeeStatusLabel status
              | Some True \<Rightarrow> ''Amount validation failed''
              | Some False \<Rightarrow> ''Invalid request parameters''))
      else if status = 404 then ''Route not available''
      else if status = 500 then
        (case bodyIncludes body ''BigNumberish'' of
           None \<Rightarrow> bungeeStatusLabel status
         | Some True \<Rightarrow> ''Amount processing error''
         | Some False \<Rightarrow> ''Server error'')
      else ''Service unavailable'')"

text \<open>
  What \<open>getBungeeQuotesBoth\<close> and \<open>getBungeeQuote\<close> do alike, from their first line to
  \<open>const result = data.result\<close>: the token decimals, the amount conversion, the quote
  request and the responses without a result. It ends in the quote to return at once, or
  in the result with the input amount as text, the unit price and the decimals of the
  output token.
\<close>

definition bungeeResultOf ::
  "env \<Rightarrow> bungee_quote_body response \<Rightarrow> jsnum \<Rightarrow> jsnum \<Rightarrow> quote + bungee_result" where
  "bungeeResultOf w resp tokenAmount tp =
     (case resp of
        Rejected e \<Rightarrow> Inl (errorQuote ''Bungee'' e ''0'' (Fin 0))
      | HttpError status body \<Rightarrow>
          Inl (errorQuote ''Bungee'' (bungeeUserFriendlyError status body)
                 (toFixed (expForm w) 6 tokenAmount) tp)
      | HttpOk data \<Rightarrow>
          if \<not> b_success data
          then Inl (errorQuote ''Bungee''
                      (orStr (b_message data) (orStr (b_error data) ''Quote failed''))
                      (toFixed (expForm w) 6 tokenAmount) tp)
          else (case b_result data of
                  None \<Rightarrow> Inl (errorQuote ''Bungee'' ''No quote available''
                                 (toFixed (expForm w) 6 tokenAmount) tp)
                | Some result \<Rightarrow> Inr result))"

definition bungeeRequest ::
  "env \<Rightarrow> string \<Rightarrow> string \<Rightarrow> string \<Rightarrow> string \<Rightarrow> jsnum \<Rightarrow> string option \<Rightarrow> jsnum option
     \<Rightarrow> state \<Rightarrow> (quote + bungee_result \<times> string \<times> jsnum \<times> nat) \<times> state" where
  "bungeeRequest w fromChain fromToken toChain toToken usdAmount apiKey fromTokenPrice s =
     (let bungeeFromToken = normalizeTokenAddress fromToken False;
          bungeeToToken = normalizeTokenAddress toToken False;
          (tokenList, s1) = fetchBungeeTokenList w s;
          (fromTokenDecimals, toTokenDecimals) =
            listDecimals (bungeeChainTokens tokenList) fromChain bungeeFromToken
              toChain bungeeToToken;
          tp = tokenPrice_of fromTokenPrice;
          tokenAmount = tokenAmount_of usdAmount tp
      in case toBaseUnits usdAmount fromTokenPrice fromTokenDecimals of
           Inl InvalidAmount \<Rightarrow> (Inl (errorQuote ''Bungee'' ''Invalid amount'' ''0'' tp), s1)
         | Inl (Thrown e) \<Rightarrow> (Inl (errorQuote ''Bungee'' e ''0'' (Fin 0)), s1)
         | Inr n \<Rightarrow>
             (let ps = \<lparr>p_fromChain = fromChain, p_toChain = toChain,
                        p_fromToken = bungeeFromToken, p_toToken = bungeeToToken,
                        p_amount = showInt n, p_account = placeholderAccount,
                        p_apiKey = (if truthy_str apiKey then apiKey else None)\<rparr>;
                  (resp, s2) = fetchBungeeQuote w ps s1
              in (case bungeeResultOf w resp tokenAmount tp of
                    Inl q \<Rightarrow> (Inl q, s2)
                  | Inr result \<Rightarrow>
                      (Inr (result, toFixed (expForm w) 6 tokenAmount, tp, toTokenDecimals),
                       s2))))"

subsection \<open>The bridge aggregator: \<open>getBungeeQuotesBoth\<close>\<close>

definition autoQuoteOf :: "env \<Rightarrow> bungee_result \<Rightarrow> string \<Rightarrow> jsnum \<Rightarrow> nat \<Rightarrow> quote" where
  "autoQuoteOf w result inp tp toTokenDecimals =
     (case autoRoute result of
        None \<Rightarrow> errorQuote ''Bungee Auto'' ''No auto route'' inp tp
      | Some ar \<Rightarrow>
          if hasAmount ar then
            (let outputValue = js_div (parseFloat (amountOf ar)) (Math_pow10 (pow10 w) toTokenDecimals);
                 bridgeName =
                   (if nonEmpty (r_usedBridgeNames ar)
                    then hd (the (r_usedBridgeNames ar)) @ '' (Auto)''
                    else if truthy_str (r_bridgeName ar) then the (r_bridgeName ar) @ '' (Auto)''
                    else ''Bungee Auto'');
                 time = (if truthy_nat (r_estimatedTime ar)
                         then minutes (the (r_estimatedTime ar)) else ''5 min'')
             in \<lparr>outputAmount = toFixed (expForm w) 4 outputValue, estimatedTime = time,
                  provider = bridgeName, route = Some bridgeName, error = None,
                  inputTokenAmount = inp, tokenPrice = tp\<rparr>)
          else errorQuote ''Bungee Auto'' ''No auto route'' inp tp)"

text \<open>The name a manual route is shown under, when it carries one.\<close>

definition manualName :: "bungee_route \<Rightarrow> string option" where
  "manualName r =
     (if nonEmpty (r_usedBridgeNames r) then Some (hd (the (r_usedBridgeNames r)))
      else if truthy_str (r_bridgeName r) then r_bridgeName r
      else if nonEmpty (r_steps r) then
        (let firstStep = hd (the (r_steps r))
         in if truthy_str (st_protocolDisplayName firstStep) then st_protocolDisplayName firstStep
            else if truthy_str (st_protocolName firstStep) then st_protocolName firstStep
            else None)
      else None)"

definition manualQuoteOf :: "env \<Rightarrow> bungee_result \<Rightarrow> string \<Rightarrow> jsnum \<Rightarrow> nat \<Rightarrow> quote" where
  "manualQuoteOf w result inp tp toTokenDecimals =
     (if nonEmpty (manualRoutes result) then
        (case bestManual parseFloat (the (manualRoutes result)) of
           (bestOutputAmount, Some bestManualRoute) \<Rightarrow>
             (let outputValue = js_div bestOutputAmount (Math_pow10 (pow10 w) toTokenDecimals);
                  bridgeName = (case manualName bestManualRoute of
                                  Some n \<Rightarrow> n @ '' (Manual)''
                                | None \<Rightarrow> ''Bungee Manual'');
                  displayProviderName = (case manualName bestManualRoute of
                                           Some n \<Rightarrow> n
                                         | None \<Rightarrow> bridgeName);
                  time = (if truthy_nat (r_estimatedTime bestManualRoute)
                          then minutes (the (r_estimatedTime bestManualRoute)) else ''5 min'')
              in \<lparr>outputAmount = toFixed (expForm w) 4 outputValue, estimatedTime = time,
                   provider = displayProviderName, route = Some bridgeName, error = None,
                   inputTokenAmount = inp, tokenPrice = tp\<rparr>)
         | (bestOutputAmount, None) \<Rightarrow>
             errorQuote ''Bungee Manual'' ''No manual routes'' inp tp)
      else errorQuote ''Bungee Manual'' ''No manual routes'' inp tp)"

definition getBungeeQuotesBoth ::
  "env \<Rightarrow> string \<Rightarrow> string \<Rightarrow> string \<Rightarrow> string \<Rightarrow> jsnum \<Rightarrow> string option \<Rightarrow> jsnum option
     \<Rightarrow> jsnum option \<Rightarrow> state \<Rightarrow> (quote \<times> quote) \<times> state" where
  "getBungeeQuotesBoth w fromChain fromToken toChain toToken usdAmount apiKey fromTokenPrice
     toTokenPrice s =
     (case bungeeRequest w fromChain fromToken toChain toToken usdAmount apiKey fromTokenPrice s of
        (Inl q, s1) \<Rightarrow> ((q, q), s1)
      | (Inr (result, inp, tp, toTokenDecimals), s1) \<Rightarrow>
          ((autoQuoteOf w result inp tp toTokenDecimals,
            manualQuoteOf w result inp tp toTokenDecimals), s1))"

subsection \<open>The bridge aggregator: \<open>getBungeeQuote\<close>\<close>

text \<open>The amount of the chosen route, from the first field that holds one, else \<open>"0"\<close>.\<close>

definition outputAmountStr :: "bungee_route \<Rightarrow> string" where
  "outputAmountStr bestRoute =
     (if hasAmount bestRoute then amountOf bestRoute
      else orStr (r_outputAmount bestRoute)
             (orStr (r_toAmount bestRoute) (orStr (r_returnAmount bestRoute) ''0'')))"

definition singleName :: "bungee_route \<Rightarrow> string" where
  "singleName bestRoute =
     (if nonEmpty (r_usedBridgeNames bestRoute) then hd (the (r_usedBridgeNames bestRoute))
      else if truthy_str (r_bridgeName bestRoute) then the (r_bridgeName bestRoute)
      else if nonEmpty (r_steps bestRoute) then
        (let firstStep = hd (the (r_steps bestRoute))
         in orStr (st_protocolDisplayName firstStep)
              (orStr (st_protocolName firstStep) (orStr (st_toolName firstStep) ''Bungee'')))
      else orStr (r_protocolDisplayName bestRoute) (orStr (r_bridgeId bestRoute) ''Bungee''))"

definition singleTime :: "bungee_route \<Rightarrow> string" where
  "singleTime bestRoute =
     (if truthy_nat (r_estimatedTime bestRoute) then minutes (the (r_estimatedTime bestRoute))
      else if truthy_nat (r_serviceTime bestRoute) then minutes (the (r_serviceTime bestRoute))
      else if truthy_nat (r_estimatedProcessingTimeInSeconds bestRoute)
      then minutes (the (r_estimatedProcessingTimeInSeconds bestRoute))
      else ''5 min'')"

definition singleQuoteOf :: "env \<Rightarrow> bungee_result \<Rightarrow> string \<Rightarrow> jsnum \<Rightarrow> nat \<Rightarrow> quote" where
  "singleQuoteOf w result inp tp toTokenDecimals =
     (case bestOfBoth parseFloat result of
        None \<Rightarrow> errorQuote ''Bungee'' ''No routes found'' inp tp
      | Some (bestRoute, routeType) \<Rightarrow>
          if outputAmountStr bestRoute = [] \<or> outputAmountStr bestRoute = ''0''
          then errorQuote ''Bungee'' ''No output amount'' inp tp
          else
            (let outputValue =
                   js_div (parseFloat (outputAmountStr bestRoute)) (Math_pow10 (pow10 w) toTokenDecimals);
                 bridgeName = singleName bestRoute
             in \<lparr>outputAmount = toFixed (expForm w) 4 outputValue,
                  estimatedTime = singleTime bestRoute, provider = bridgeName,
                  route = Some bridgeName, error = None, inputTokenAmount = inp,
                  tokenPrice = tp\<rparr>))"

definition getBungeeQuote ::
  "env \<Rightarrow> string \<Rightarrow> string \<Rightarrow> string \<Rightarrow> string \<Rightarrow> jsnum \<Rightarrow> string option \<Rightarrow> jsnum option
     \<Rightarrow> jsnum option \<Rightarrow> state \<Rightarrow> quote \<times> state" where
  "getBungeeQuote w fromChain fromToken toChain toToken usdAmount apiKey fromTokenPrice
     toTokenPrice s =
     (case bungeeRequest w fromChain fromToken toChain toToken usdAmount apiKey fromTokenPrice s of
        (Inl q, s1) \<Rightarrow> (q, s1)
      | (Inr (result, inp, tp, toTokenDecimals), s1) \<Rightarrow>
          (singleQuoteOf w result inp tp toTokenDecimals, s1))"

section \<open>Example data\<close>

text \<open>A route with an output amount and a bridge name, and nothing else.\<close>

definition mkRoute :: "string \<Rightarrow> string \<Rightarrow> bungee_route" where
  "mkRoute amount name =
     \<lparr>r_output = Some (Some amount), r_usedBridgeNames = None, r_bridgeName = Some name,
      r_steps = None, r_estimatedTime = None, r_outputAmount = None, r_toAmount = None,
      r_returnAmount = None, r_protocolDisplayName = None, r_bridgeId = None,
      r_serviceTime = None, r_estimatedProcessingTimeInSeconds = None\<rparr>"

text \<open>
  A result with an auto route of output 5, manual routes of outputs 7 and 9 and a
  legacy route of output 11.
\<close>

definition autoAndManual :: bungee_result where
  "autoAndManual =
     \<lparr>autoRoute = Some (mkRoute ''5'' ''fast''),
      manualRoutes = Some [mkRoute ''7'' ''b'', mkRoute ''9'' ''c''],
      routes = Some [mkRoute ''11'' ''legacy'']\<rparr>"

text \<open>
  A result without an auto route, with one manual route of output 0 and a legacy route of
  output 11.
\<close>

definition zeroManual :: bungee_result where
  "zeroManual =
     \<lparr>autoRoute = None, manualRoutes = Some [mkRoute ''0'' ''slow''],
      routes = Some [mkRoute ''11'' ''legacy'']\<rparr>"

text \<open>
  A world in which every request is rejected; the clock advances by one second from one
  reading to the next.
\<close>

definition offline :: env where
  "offline =
     \<lparr>coingeckoSimple = (\<lambda>h k. Rejected ''fetch failed''),
      coingeckoToken = (\<lambda>h pl a. Rejected ''fetch failed''),
      bungeeTokenList = (\<lambda>h. Rejected ''fetch failed''),
      lifiTokenList = (\<lambda>h c. Rejected ''fetch failed''),
      lifiQuote = (\<lambda>h ps. Rejected ''fetch failed''),
      bungeeQuote = (\<lambda>h ps. Rejected ''fetch failed''),
      clock = (\<lambda>n. 1000 * int n),
      expForm = (\<lambda>r. ''1e+21''),
      pow10 = (\<lambda>n. fl (10 ^ n))\<rparr>"

text \<open>The state of a fresh process: an empty cache, nothing requested, the clock unread.\<close>

definition start :: state where
  "start = \<lparr>cache = Map.empty, calls = [], ticks = 0\<rparr>"

text \<open>USDC on chain 137, with six decimals.\<close>

definition usdcAddress :: string where
  "usdcAddress = ''0x2791Bca1f2de4661ED88A30C99A7a9449Aa84174''"

definition usdcToken :: token where
  "usdcToken =
     \<lparr>address = usdcAddress, symbol = ''USDC'', decimals = Some 6,
      priceInUsd = JUndefined, priceUSD = JUndefined\<rparr>"

text \<open>
  A world whose cross-chain aggregator lists USDC on chain 137 and answers every quote
  request with an estimate of the given output amount.
\<close>

definition lifiAnswers :: "string \<Rightarrow> env" where
  "lifiAnswers toAmount =
     offline
       \<lparr>lifiTokenList := (\<lambda>h c. HttpOk (Some [(''137'', [usdcToken])])),
        lifiQuote := (\<lambda>h ps. HttpOk (Some
          \<lparr>q_estimate = Some \<lparr>e_toAmount = Some toAmount, e_toolName = None,
                               e_executionDuration = None\<rparr>,
           q_transactionRequest = False, q_toAmount = None, q_message = None,
           q_error = None, q_toolName = None, q_toolDetailsName = None,
           q_stepsToolName = None, q_executionDuration = None\<rparr>))\<rparr>"




section \<open>The shape of a quote\<close>

text \<open>
  A quote with an error shows \<open>"0.0000"\<close> and has no route; a quote without an error
  has a route.
\<close>

definition quoteShape :: "quote \<Rightarrow> bool" where
  "quoteShape q =
     (case error q of
        Some e \<Rightarrow> outputAmount q = ''0.0000'' \<and> route q = None
      | None \<Rightarrow> route q \<noteq> None)"

text \<open>
  A world whose spot-price feed quotes the native token of chain 1 at a negative price.
\<close>

definition negativeFeed :: env where
  "negativeFeed =
     offline\<lparr>coingeckoSimple := (\<lambda>h k. HttpOk [(''ethereum'', Some (Fin (- 1)))])\<rparr>"



text \<open>
  A state whose cache holds a price of 2 for the token \<open>0xabc\<close> on chain 1, written at
  time 0, with five clock readings taken since.
\<close>

definition cachedState :: state where
  "cachedState =
     \<lparr>cache = [cacheKey_of ''1'' ''0xabc'' \<mapsto> \<lparr>price = Number (Fin 2), timestamp = 0\<rparr>],
      calls = [], ticks = 5\<rparr>"

section \<open>The value of a rendered amount\<close>







text \<open>
  The decimals that a token list gives for a token of a chain; 18 when it has no entry for
  the token or the entry has no decimals other than zero.
\<close>

definition resolvedDecimals :: "(string \<times> token list) list \<Rightarrow> string \<Rightarrow> string \<Rightarrow> nat" where
  "resolvedDecimals tokens chain tok =
     (case map_of tokens chain of
        None \<Rightarrow> 18
      | Some chainTokens \<Rightarrow>
          (case find (\<lambda>t. toLowerCase (address t) = toLowerCase tok) chainTokens of
             None \<Rightarrow> 18
           | Some info \<Rightarrow>
               (case decimals info of
                  None \<Rightarrow> 18
                | Some n \<Rightarrow> if n = 0 then 18 else n)))"

section \<open>Availability of the upstream services\<close>

definition notOk :: "'a response \<Rightarrow> bool" where
  "notOk r = (case r of HttpOk b \<Rightarrow> False | _ \<Rightarrow> True)"

text \<open>
  No token-list or price-feed request is ever answered with an \<open>ok\<close> response.
\<close>

definition unavailable :: "env \<Rightarrow> bool" where
  "unavailable w =
     (\<forall>h. (\<forall>k. notOk (coingeckoSimple w h k))
          \<and> (\<forall>pl a. notOk (coingeckoToken w h pl a))
          \<and> notOk (bungeeTokenList w h)
          \<and> (\<forall>c. notOk (lifiTokenList w h c)))"

text \<open>A strategy that leaves the cache and the clock as they are.\<close>

definition keeps :: "strategy \<Rightarrow> bool" where
  "keeps f = (\<forall>s. cache (snd (f s)) = cache s \<and> ticks (snd (f s)) = ticks s)"

section \<open>Positive prices\<close>

definition positive :: "jsnum \<Rightarrow> bool" where
  "positive p = js_gt p (Fin 0)"

fun positivePrice :: "price_value \<Rightarrow> bool" where
  "positivePrice (Number p) = positive p"
| "positivePrice (Builtin k) = False"

text \<open>Every truthy \<open>usd\<close> value of an \<open>ok\<close> answer of the spot-price feed is above zero.\<close>

definition feedPositive :: "env \<Rightarrow> bool" where
  "feedPositive w =
     (\<forall>h k pl a key.
        (\<forall>p. cgUsd (coingeckoSimple w h k) key = Some p \<longrightarrow> positive p)
      \<and> (\<forall>p. cgUsd (coingeckoToken w h pl a) key = Some p \<longrightarrow> positive p))"

text \<open>A strategy whose price, when it finds one, is above zero.\<close>

definition findsPositive :: "strategy \<Rightarrow> bool" where
  "findsPositive f = (\<forall>s p s1. f s = (Some p, s1) \<longrightarrow> positivePrice p)"

section \<open>Properties of the rounding to a double\<close>

lemma pow2_powr: "pow2 e = 2 powr (of_int e)"
  by (simp add: pow2_def powr_real_of_int inverse_eq_divide)

lemma pow2_pos [simp]: "0 < pow2 e"
  by (simp add: pow2_powr)

lemma pow2_add: "pow2 (a + b) = pow2 a * pow2 b"
  by (simp add: pow2_powr powr_add)

lemma pow2_diff: "pow2 (a - b) = pow2 a / pow2 b"
  by (simp add: pow2_powr powr_diff)

lemma pow2_mono: "a \<le> b \<Longrightarrow> pow2 a \<le> pow2 b"
  by (simp add: pow2_powr)

lemma pow2_less_iff: "pow2 a < pow2 b \<longleftrightarrow> a < b"
  by (simp add: pow2_powr)

lemma pow2_nat: "pow2 (int n) = 2 ^ n"
  by (simp add: pow2_def)

lemma binade_bounds:
  assumes "x \<noteq> 0"
  shows "pow2 (binade x) \<le> \<bar>x\<bar>" and "\<bar>x\<bar> < pow2 (binade x + 1)"
proof -
  show "pow2 (binade x) \<le> \<bar>x\<bar>"
  proof (cases "1 \<le> \<bar>x\<bar>")
    case True
    define N where "N = \<lfloor>\<bar>x\<bar>\<rfloor>"
    have N: "0 < N" using True by (simp add: N_def)
    have b: "1 \<le> bitlen N" using N by (auto simp: bitlen_alt_def)
    have "2 ^ nat (bitlen N - 1) \<le> N" using bitlen_bounds [OF N] by simp
    then have "(2::real) ^ nat (bitlen N - 1) \<le> of_int N"
      by (metis of_int_le_iff of_int_numeral of_int_power)
    also have "\<dots> \<le> \<bar>x\<bar>" by (simp add: N_def)
    finally show ?thesis using True b by (simp add: binade_def N_def pow2_def)
  next
    case False
    define y where "y = 1 / \<bar>x\<bar>"
    define M where "M = \<lceil>y\<rceil>"
    have y: "1 < y" using False assms by (simp add: y_def)
    have M: "y \<le> of_int M" by (simp add: M_def)
    have M2: "2 \<le> M" using y M by linarith
    have m1: "0 < M - 1" using M2 by simp
    have "M - 1 < 2 ^ nat (bitlen (M - 1))" using bitlen_bounds [OF m1] by simp
    then have "M \<le> 2 ^ nat (bitlen (M - 1))" by simp
    then have "of_int M \<le> (2::real) ^ nat (bitlen (M - 1))"
      by (metis of_int_le_iff of_int_numeral of_int_power)
    then have "y \<le> 2 ^ nat (bitlen (M - 1))" using M by linarith
    then have "1 / 2 ^ nat (bitlen (M - 1)) \<le> \<bar>x\<bar>"
      using assms by (simp add: y_def field_simps)
    moreover have "0 \<le> bitlen (M - 1)" by (rule bitlen_nonneg)
    moreover have "bitlen (M - 1) \<noteq> 0" using m1 by (simp add: bitlen_eq_zero_iff)
    ultimately show ?thesis
      using False by (simp add: binade_def pow2_def y_def [symmetric] M_def [symmetric])
  qed
  show "\<bar>x\<bar> < pow2 (binade x + 1)"
  proof (cases "1 \<le> \<bar>x\<bar>")
    case True
    define N where "N = \<lfloor>\<bar>x\<bar>\<rfloor>"
    have N: "0 < N" using True by (simp add: N_def)
    have b: "1 \<le> bitlen N" using N by (auto simp: bitlen_alt_def)
    have "N < 2 ^ nat (bitlen N)" using bitlen_bounds [OF N] by simp
    then have "N + 1 \<le> 2 ^ nat (bitlen N)" by simp
    then have "of_int (N + 1) \<le> (2::real) ^ nat (bitlen N)"
      by (metis of_int_le_iff of_int_numeral of_int_power)
    moreover have "\<bar>x\<bar> < of_int (N + 1)" unfolding N_def by linarith
    ultimately have "\<bar>x\<bar> < 2 ^ nat (bitlen N)" by linarith
    then show ?thesis using True b by (simp add: binade_def N_def pow2_def)
  next
    case False
    define y where "y = 1 / \<bar>x\<bar>"
    define M where "M = \<lceil>y\<rceil>"
    have y: "1 < y" using False assms by (simp add: y_def)
    have M: "of_int M - 1 < y" unfolding M_def by linarith
    have M2: "2 \<le> M" using y unfolding M_def by linarith
    have m1: "0 < M - 1" using M2 by simp
    define c where "c = bitlen (M - 1)"
    have c1: "1 \<le> c" using m1 by (auto simp: c_def bitlen_alt_def)
    have "2 ^ nat (c - 1) \<le> M - 1" using bitlen_bounds [OF m1] by (simp add: c_def)
    then have "(2::real) ^ nat (c - 1) \<le> of_int (M - 1)"
      by (metis of_int_le_iff of_int_numeral of_int_power)
    then have "2 ^ nat (c - 1) < y" using M by simp
    then have lt: "\<bar>x\<bar> < 1 / 2 ^ nat (c - 1)"
      using assms by (simp add: y_def field_simps)
    have "pow2 (- c + 1) = 1 / 2 ^ nat (c - 1)"
      using c1 by (cases "c = 1") (simp_all add: pow2_def)
    then show ?thesis
      using False lt by (simp add: binade_def y_def [symmetric] M_def [symmetric] c_def [symmetric])
  qed
qed

lemma binade_unique:
  assumes "pow2 e \<le> \<bar>x\<bar>" "\<bar>x\<bar> < pow2 (e + 1)"
  shows "binade x = e"
proof -
  have "0 < \<bar>x\<bar>" using assms(1) pow2_pos [of e] by linarith
  then have nz: "x \<noteq> 0" by auto
  note b = binade_bounds [OF nz]
  have "pow2 e < pow2 (binade x + 1)" using assms(1) b(2) by linarith
  then have 1: "e \<le> binade x" by (simp add: pow2_less_iff)
  have "pow2 (binade x) < pow2 (e + 1)" using assms(2) b(1) by linarith
  then have 2: "binade x \<le> e" by (simp add: pow2_less_iff)
  show ?thesis using 1 2 by simp
qed

lemma roundEven_error: "\<bar>of_int (roundEven x) - x\<bar> \<le> 1 / 2"
  unfolding roundEven_def Let_def by (auto; linarith)

lemma roundEven_nonneg: "0 \<le> x \<Longrightarrow> 0 \<le> roundEven x"
  unfolding roundEven_def Let_def by (auto; linarith)

lemma roundEven_nonpos: "x \<le> 0 \<Longrightarrow> roundEven x \<le> 0"
proof -
  assume x: "x \<le> 0"
  have "\<lfloor>x\<rfloor> \<le> 0" using x by simp
  moreover have "\<lfloor>x\<rfloor> = 0 \<Longrightarrow> x = 0" using x by linarith
  then have "\<lfloor>x\<rfloor> = 0 \<Longrightarrow> roundEven x = 0" by (auto simp: roundEven_def)
  moreover have "\<lfloor>x\<rfloor> < 0 \<Longrightarrow> roundEven x \<le> 0" by (auto simp: roundEven_def Let_def)
  ultimately show ?thesis by linarith
qed

lemma fl_eval:
  assumes "pow2 e \<le> \<bar>x\<bar>" "\<bar>x\<bar> < pow2 (e + 1)"
  shows "fl x =
     (let q = pow2 (max e (- 1022) - 52);
          y = of_int (roundEven (x / q)) * q
      in if 2 ^ 1024 \<le> \<bar>y\<bar> then (if 0 < x then PosInf else NegInf) else Fin y)"
proof -
  have "0 < \<bar>x\<bar>" using assms(1) pow2_pos [of e] by linarith
  then have nz: "x \<noteq> 0" by auto
  show ?thesis using nz by (simp add: fl_def binade_unique [OF assms])
qed

lemma fl_rel:
  assumes lo: "pow2 (- 1022) \<le> \<bar>x\<bar>" and hi: "\<bar>x\<bar> < 2 ^ 1023"
  shows "\<exists>y. fl x = Fin y \<and> \<bar>y - x\<bar> \<le> \<bar>x\<bar> / 2 ^ 53 \<and> (0 < x \<longrightarrow> 0 < y)"
proof -
  have "0 < \<bar>x\<bar>" using lo pow2_pos [of "- 1022"] by linarith
  then have nz: "x \<noteq> 0" by auto
  define e where "e = binade x"
  note b = binade_bounds [OF nz, folded e_def]
  have "pow2 (- 1022) < pow2 (e + 1)" using lo b(2) by linarith
  then have e: "- 1022 \<le> e" by (simp add: pow2_less_iff)
  define q where "q = pow2 (e - 52)"
  have q: "0 < q" by (simp add: q_def)
  define y where "y = of_int (roundEven (x / q)) * q"
  have "\<bar>of_int (roundEven (x / q)) - x / q\<bar> \<le> 1 / 2" by (rule roundEven_error)
  then have "\<bar>of_int (roundEven (x / q)) - x / q\<bar> * q \<le> 1 / 2 * q"
    using q by (simp only: mult_le_cancel_right_pos)
  moreover have "\<bar>of_int (roundEven (x / q)) - x / q\<bar> * q = \<bar>y - x\<bar>"
  proof -
    have "\<bar>of_int (roundEven (x / q)) - x / q\<bar> * q = \<bar>(of_int (roundEven (x / q)) - x / q) * q\<bar>"
      using q by (simp add: abs_mult)
    also have "(of_int (roundEven (x / q)) - x / q) * q = y - x"
      using q by (simp add: y_def left_diff_distrib)
    finally show ?thesis .
  qed
  ultimately have err: "\<bar>y - x\<bar> \<le> q / 2" by simp
  have "pow2 e = pow2 ((e - 52) + 52)" by simp
  also have "\<dots> = pow2 (e - 52) * pow2 52" by (rule pow2_add)
  also have "pow2 52 = 2 ^ 52" using pow2_nat [of 52] by simp
  finally have "pow2 e = q * 2 ^ 52" by (simp add: q_def)
  then have "q / 2 = pow2 e / 2 ^ 53" by simp
  also have "\<dots> \<le> \<bar>x\<bar> / 2 ^ 53" using b(1) by (simp add: divide_right_mono)
  finally have qx: "q / 2 \<le> \<bar>x\<bar> / 2 ^ 53" .
  have rel: "\<bar>y - x\<bar> \<le> \<bar>x\<bar> / 2 ^ 53" using err qx by linarith
  have "\<bar>x\<bar> / 2 ^ 53 \<le> \<bar>x\<bar> / 2" using \<open>0 < \<bar>x\<bar>\<close> by (simp add: field_simps)
  then have half: "\<bar>y - x\<bar> \<le> \<bar>x\<bar> / 2" using rel by linarith
  have "\<bar>y\<bar> \<le> \<bar>x\<bar> + \<bar>x\<bar> / 2" using half by linarith
  also have "\<dots> < 2 * 2 ^ 1023" using hi by linarith
  also have "(2::real) * 2 ^ 1023 = 2 ^ 1024" by simp
  finally have fin: "\<not> 2 ^ 1024 \<le> \<bar>y\<bar>" by simp
  have pos: "0 < x \<longrightarrow> 0 < y" using half by (auto; linarith)
  have "fl x = Fin y"
    using nz e fin by (simp add: fl_def e_def [symmetric] max_def q_def [symmetric] y_def [symmetric] Let_def)
  then show ?thesis using rel pos by blast
qed

lemma fl_nonpos:
  assumes "x \<le> 0"
  shows "fl x = NegInf \<or> (\<exists>y. fl x = Fin y \<and> y \<le> 0)"
proof (cases "x = 0")
  case True
  then show ?thesis by (simp add: fl_def)
next
  case False
  define q where "q = pow2 (max (binade x) (- 1022) - 52)"
  have q: "0 < q" by (simp add: q_def)
  have "x / q \<le> 0" using assms q by (simp add: divide_le_0_iff)
  then have "roundEven (x / q) \<le> 0" by (rule roundEven_nonpos)
  then have "of_int (roundEven (x / q)) * q \<le> 0"
    using q by (simp add: mult_le_0_iff)
  then show ?thesis
    using False assms by (simp add: fl_def q_def [symmetric] Let_def)
qed

lemma fl_nonneg:
  assumes "0 \<le> x"
  shows "fl x = PosInf \<or> (\<exists>y. fl x = Fin y \<and> 0 \<le> y)"
proof (cases "x = 0")
  case True
  then show ?thesis by (simp add: fl_def)
next
  case False
  define q where "q = pow2 (max (binade x) (- 1022) - 52)"
  have q: "0 < q" by (simp add: q_def)
  have "0 \<le> x / q" using assms q by simp
  then have "0 \<le> roundEven (x / q)" by (rule roundEven_nonneg)
  then have "0 \<le> of_int (roundEven (x / q)) * q"
    using q by simp
  then show ?thesis
    using False assms by (simp add: fl_def q_def [symmetric] Let_def)
qed

text \<open>An integer below \<open>2^53\<close> in absolute value is a double.\<close>

lemma roundEven_of_int [simp]: "roundEven (of_int n) = n"
  by (simp add: roundEven_def)

lemma fl_of_int:
  assumes "\<bar>n\<bar> < 2 ^ 53"
  shows "fl (of_int n) = Fin (of_int n)"
proof (cases "n = 0")
  case True
  then show ?thesis by (simp add: fl_def)
next
  case False
  define e where "e = bitlen \<bar>n\<bar> - 1"
  have pos: "0 < \<bar>n\<bar>" using False by simp
  have b1: "1 \<le> bitlen \<bar>n\<bar>" using pos by (auto simp: bitlen_alt_def)
  have e0: "0 \<le> e" using b1 by (simp add: e_def)
  have "(2::int) ^ nat e \<le> \<bar>n\<bar>" using bitlen_bounds [OF pos] by (simp add: e_def)
  then have lt: "(2::int) ^ nat e < 2 ^ 53" using assms by linarith
  have "nat e < 53" by (rule power_less_imp_less_exp [OF _ lt]) simp
  then have e52: "e \<le> 52" by linarith
  have bin: "binade (of_int n) = e"
  proof -
    have "1 \<le> \<bar>n\<bar>" using pos by linarith
    then have "real_of_int 1 \<le> real_of_int \<bar>n\<bar>" by (simp only: of_int_le_iff)
    then have "1 \<le> \<bar>real_of_int n\<bar>" by simp
    moreover have "\<lfloor>\<bar>real_of_int n\<bar>\<rfloor> = \<bar>n\<bar>" by (metis floor_of_int of_int_abs)
    ultimately show ?thesis by (simp add: binade_def e_def)
  qed
  define k where "k = nat (52 - e)"
  have q: "pow2 (max e (- 1022) - 52) = 1 / 2 ^ k"
    using e0 e52 by (cases "e = 52") (simp_all add: pow2_def k_def max_def)
  have "real_of_int n / (1 / 2 ^ k) = of_int (n * 2 ^ k)" by simp
  then have r: "roundEven (real_of_int n / (1 / 2 ^ k)) = n * 2 ^ k"
    by (simp only: roundEven_of_int)
  have y: "real_of_int (n * 2 ^ k) * (1 / 2 ^ k) = of_int n" by simp
  have "\<bar>real_of_int n\<bar> < 2 ^ 53"
    using assms by (metis of_int_abs of_int_less_iff of_int_numeral of_int_power)
  also have "\<dots> \<le> (2::real) ^ 1024" by simp
  finally have fin: "\<not> 2 ^ 1024 \<le> \<bar>real_of_int n\<bar>" by simp
  show ?thesis
    using False fin by (simp only: fl_def bin q r y Let_def of_int_eq_0_iff if_False)
qed

lemma fl_numeral [simp]: "numeral k < (2::int) ^ 53 \<Longrightarrow> fl (numeral k) = Fin (numeral k)"
  using fl_of_int [of "numeral k"] by simp

lemma fl_neg_numeral [simp]:
  "numeral k < (2::int) ^ 53 \<Longrightarrow> fl (- numeral k) = Fin (- numeral k)"
  using fl_of_int [of "- numeral k"] by simp

lemma fl_0 [simp]: "fl 0 = Fin 0"
  by (simp add: fl_def)

lemma fl_1 [simp]: "fl 1 = Fin 1"
  using fl_of_int [of 1] by simp

text \<open>The doubles that the runs below meet.\<close>

lemma fl_quarter: "fl (1 / 4) = Fin (1 / 4)"
  by (subst fl_eval [where e = "- 2"]) (simp_all add: pow2_def roundEven_def Let_def)

lemma fl_half: "fl (1 / 2) = Fin (1 / 2)"
  by (subst fl_eval [where e = "- 1"]) (simp_all add: pow2_def roundEven_def Let_def)

lemma fl_millionth: "fl (1 / 1000000) = Fin (4722366482869645 / 2 ^ 72)"
  by (subst fl_eval [where e = "- 20"]) (simp_all add: pow2_def roundEven_def Let_def)

lemma fl_e18: "fl 1000000000000000000 = Fin 1000000000000000000"
  by (subst fl_eval [where e = "59"]) (simp_all add: pow2_def roundEven_def Let_def)

lemma fl_5e17: "fl 500000000000000000 = Fin 500000000000000000"
  by (subst fl_eval [where e = "58"]) (simp_all add: pow2_def roundEven_def Let_def)



lemmas fl_values = fl_quarter fl_half fl_millionth fl_e18 fl_5e17

section \<open>Properties of the amount conversion\<close>

lemma bigint_div_nonneg: "0 \<le> a \<Longrightarrow> 0 < b \<Longrightarrow> bigint_div a b = a div b"
  by (cases "a = 0") (simp_all add: bigint_div_def)

lemma micro_scale_exact:
  assumes "6 \<le> d"
  shows "(m * 10 ^ d) div 1000000 = m * (10::int) ^ (d - 6)"
proof -
  have "(10::int) ^ d = 10 ^ ((d - 6) + 6)"
    using assms by simp
  also have "\<dots> = 10 ^ (d - 6) * 10 ^ 6"
    by (rule power_add)
  finally have e: "(10::int) ^ d = 10 ^ (d - 6) * 1000000"
    by simp
  have "m * 10 ^ d div 1000000 = (m * 10 ^ (d - 6) * 1000000) div 1000000"
    by (simp only: e mult.assoc)
  also have "\<dots> = m * 10 ^ (d - 6)"
    by (rule nonzero_mult_div_cancel_right) simp
  finally show ?thesis .
qed

text \<open>
  The conversion in terms of the two roundings it goes through: the quotient, and its
  product with \<open>10^6\<close>.
\<close>

lemma toBaseUnits_value:
  assumes "0 < p" and "fl (u / p) = Fin t" and "0 < t" and "fl (t * 1000000) = Fin x"
    and "0 \<le> x"
  shows "toBaseUnits (Fin u) (Some (Fin p)) d = Inr ((\<lfloor>x\<rfloor> * 10 ^ d) div 1000000)"
proof -
  have fl: "0 \<le> \<lfloor>x\<rfloor>"
    using assms(5) by (simp only: zero_le_floor)
  have "bigint_div (\<lfloor>x\<rfloor> * 10 ^ d) 1000000 = (\<lfloor>x\<rfloor> * 10 ^ d) div 1000000"
    using fl by (intro bigint_div_nonneg) simp_all
  then show ?thesis
    using assms
    by (simp add: toBaseUnits_def tokenPrice_of_def tokenAmount_of_def invalidAmount_def
        tokenAmountBigInt_def not_le)
qed

lemma two_decimals_run: "toBaseUnits (Fin 1) (Some (Fin 256)) 2 = Inr 0"
proof -
  have a: "fl (1 / 256) = Fin (1 / 256)"
    by (subst fl_eval [where e = "- 8"]) (simp_all add: pow2_def roundEven_def Let_def)
  have b: "fl (1 / 256 * 1000000) = Fin (15625 / 4)"
    by (subst fl_eval [where e = "11"]) (simp_all add: pow2_def roundEven_def Let_def)
  show ?thesis
    using toBaseUnits_value [OF _ a _ b, of 2] by simp
qed

lemma micro_price_run:
  "toBaseUnits (Fin 120000) (Some (Fin (5902958103587057 / 2 ^ 69))) 18
     = Inr 11999999999999998000000000000"
proof -
  have a: "fl (120000 / (5902958103587057 / 2 ^ 69)) = Fin (6291455999999999 / 2 ^ 19)"
    by (subst fl_eval [where e = "33"]) (simp_all add: pow2_def roundEven_def Let_def)
  have b: "fl (6291455999999999 / 2 ^ 19 * 1000000) = Fin 11999999999999998"
    by (subst fl_eval [where e = "53"]) (simp_all add: pow2_def roundEven_def Let_def)
  show ?thesis
    using toBaseUnits_value [OF _ a _ b, of 18] by simp
qed

lemma micro_price_is_double:
  "fl (1 / 100000) = Fin (5902958103587057 / 2 ^ 69)"
  by (subst fl_eval [where e = "- 17"]) (simp_all add: pow2_def roundEven_def Let_def)

text \<open>
  The result can lie above the quotient as well: 1000 dollars at the double written
  \<open>0.1\<close>, which is above a tenth, give exactly \<open>10000\<close> tokens.
\<close>

lemma tenth_price_run:
  "fl (1 / 10) = Fin (3602879701896397 / 2 ^ 55)"
  "toBaseUnits (Fin 1000) (Some (Fin (3602879701896397 / 2 ^ 55))) 18
     = Inr 10000000000000000000000"
  "1000 / (3602879701896397 / 2 ^ 55) < real_of_int 10000000000000000000000 / 10 ^ 18"
proof -
  show "fl (1 / 10) = Fin (3602879701896397 / 2 ^ 55)"
    by (subst fl_eval [where e = "- 4"]) (simp_all add: pow2_def roundEven_def Let_def)
  have a: "fl (1000 / (3602879701896397 / 2 ^ 55)) = Fin 10000"
    by (subst fl_eval [where e = "13"]) (simp_all add: pow2_def roundEven_def Let_def)
  have b: "fl (10000 * 1000000) = Fin 10000000000"
    by simp
  show "toBaseUnits (Fin 1000) (Some (Fin (3602879701896397 / 2 ^ 55))) 18
     = Inr 10000000000000000000000"
    using toBaseUnits_value [OF _ a _ b, of 18] by simp
  show "1000 / (3602879701896397 / 2 ^ 55) < real_of_int 10000000000000000000000 / 10 ^ 18"
    by simp
qed

text \<open>
  C1 (counterexample). One dollar of a token priced at 256 dollars with two decimals:
  the amount is \<open>0.00390625\<close> tokens, the conversion returns \<open>0\<close> base units, and
  \<open>0 / 10^2\<close> is further than \<open>10^-6\<close> from the amount; no operation of this run
  rounds. And 120000 dollars of a token of 18 decimals priced at the double written
  \<open>1e-05\<close>: the quotient is rounded to a double, and so is its product with \<open>10^6\<close>;
  the conversion returns \<open>11999999999999998 * 10^12\<close> base units, which divided by
  \<open>10^18\<close> lie more than \<open>10^-6\<close> below \<open>usdAmount / unitPrice\<close>.
\<close>

theorem toBaseUnits_counterexample:
  "toBaseUnits (Fin 1) (Some (Fin 256)) 2 = Inr 0
   \<and> \<not> \<bar>real_of_int 0 / 10 ^ 2 - 1 / 256\<bar> \<le> 1 / 10 ^ 6
   \<and> fl (1 / 100000) = Fin (5902958103587057 / 2 ^ 69)
   \<and> toBaseUnits (Fin 120000) (Some (Fin (5902958103587057 / 2 ^ 69))) 18
       = Inr 11999999999999998000000000000
   \<and> \<not> \<bar>real_of_int 11999999999999998000000000000 / 10 ^ 18
          - 120000 / (5902958103587057 / 2 ^ 69)\<bar> \<le> 1 / 10 ^ 6"
  using two_decimals_run micro_price_run micro_price_is_double by simp

text \<open>
  C1 (amended). For a positive finite amount and price whose quotient is a normal double
  and, scaled by \<open>10^6\<close>, at most \<open>2^1022\<close>, and for a token of at least six decimals,
  the conversion returns base units that, divided by \<open>10^decimals\<close>, differ from
  \<open>usdAmount / unitPrice\<close> by less than \<open>10^-6\<close> plus \<open>2^-51\<close> times that quotient:
  the truncation to a millionth of a token, and the two roundings to a double.
\<close>

theorem toBaseUnits_close:
  assumes "0 < u" "0 < p" "6 \<le> d"
    and lo: "1 / 2 ^ 1022 \<le> u / p" and hi: "u / p * 10 ^ 6 \<le> 2 ^ 1022"
  shows "\<exists>n. toBaseUnits (Fin u) (Some (Fin p)) d = Inr n
             \<and> \<bar>real_of_int n / 10 ^ d - u / p\<bar> < 1 / 10 ^ 6 + u / p / 2 ^ 51"
proof -
  define q where "q = u / p"
  have q: "0 < q" using assms(1,2) by (simp add: q_def)
  have p2: "pow2 (- 1022) = 1 / 2 ^ 1022" by (simp add: pow2_def)
  have aq: "\<bar>q\<bar> = q" using q by simp
  have qlo: "pow2 (- 1022) \<le> \<bar>q\<bar>" using lo by (simp only: p2 aq q_def)
  have q6: "q * 1000000 \<le> 2 ^ 1022" using hi by (simp add: q_def)
  have "q \<le> q * 1000000" using q by simp
  then have qle: "q \<le> 2 ^ 1022" using q6 by linarith
  have "(2::real) ^ 1022 < 2 ^ 1023" by simp
  then have qhi: "\<bar>q\<bar> < 2 ^ 1023" using qle q by linarith
  obtain t where t: "fl q = Fin t" and terr: "\<bar>t - q\<bar> \<le> \<bar>q\<bar> / 2 ^ 53" and tpos: "0 < t"
    using fl_rel [OF qlo qhi] q by blast
  have terr': "\<bar>t - q\<bar> \<le> q / 2 ^ 53" using terr q by simp
  have "q / 2 ^ 53 \<le> q / 2" using q by (simp add: field_simps)
  then have thalf: "q / 2 \<le> t" and tdouble: "t < 2 * q" using terr' q by linarith+
  define x0 where "x0 = t * 1000000"
  have x0pos: "0 < x0" using tpos by (simp add: x0_def)
  have "q \<le> x0" using thalf q by (simp add: x0_def)
  then have x0lo: "pow2 (- 1022) \<le> \<bar>x0\<bar>" using qlo q x0pos by linarith
  have "x0 < 2 * (q * 1000000)" using tdouble by (simp add: x0_def)
  also have "\<dots> \<le> 2 * 2 ^ 1022" using q6 by linarith
  also have "\<dots> = (2::real) ^ 1023" by simp
  finally have x0hi: "\<bar>x0\<bar> < 2 ^ 1023" using x0pos by simp
  obtain x where x: "fl x0 = Fin x" and xerr: "\<bar>x - x0\<bar> \<le> \<bar>x0\<bar> / 2 ^ 53" and xpos: "0 < x"
    using fl_rel [OF x0lo x0hi] x0pos by blast
  have xerr': "\<bar>x - x0\<bar> \<le> x0 / 2 ^ 53" using xerr x0pos by simp
  define m where "m = \<lfloor>x\<rfloor>"
  have res: "toBaseUnits (Fin u) (Some (Fin p)) d = Inr (m * 10 ^ (d - 6))"
    using toBaseUnits_value [OF assms(2) t [unfolded q_def] tpos x [unfolded x0_def], of d]
      xpos assms(3)
    by (simp add: micro_scale_exact m_def)
  have "(10::real) ^ d = 10 ^ ((d - 6) + 6)"
    using assms(3) by simp
  also have "\<dots> = 10 ^ (d - 6) * 10 ^ 6"
    by (rule power_add)
  finally have val: "real_of_int (m * 10 ^ (d - 6)) / 10 ^ d = real_of_int m / 1000000"
    by simp
  have m1: "real_of_int m \<le> x" unfolding m_def by (rule of_int_floor_le)
  have m2: "x < real_of_int m + 1" unfolding m_def by linarith
  have e1: "\<bar>real_of_int m / 1000000 - x / 1000000\<bar> < 1 / 1000000"
    using m1 m2 by (simp add: abs_less_iff)
  have eq: "x / 1000000 - t = (x - x0) / 1000000" by (simp add: x0_def)
  have "\<bar>(x - x0) / 1000000\<bar> = \<bar>x - x0\<bar> / 1000000" by (simp only: abs_divide abs_numeral)
  then have "\<bar>x / 1000000 - t\<bar> = \<bar>x - x0\<bar> / 1000000" by (simp only: eq)
  also have "\<dots> \<le> (x0 / 2 ^ 53) / 1000000" using xerr' by (simp only: divide_right_mono)
  also have "\<dots> = t / 2 ^ 53" by (simp add: x0_def)
  finally have e2: "\<bar>x / 1000000 - t\<bar> \<le> t / 2 ^ 53" .
  have "\<bar>real_of_int m / 1000000 - q\<bar>
          \<le> \<bar>real_of_int m / 1000000 - x / 1000000\<bar> + \<bar>x / 1000000 - t\<bar> + \<bar>t - q\<bar>"
    by linarith
  also have "\<dots> < 1 / 1000000 + t / 2 ^ 53 + q / 2 ^ 53"
    using e1 e2 terr' by linarith
  also have "\<dots> \<le> 1 / 1000000 + q / 2 ^ 51"
    using tdouble q by simp
  finally have "\<bar>real_of_int (m * 10 ^ (d - 6)) / 10 ^ d - u / p\<bar> < 1 / 10 ^ 6 + u / p / 2 ^ 51"
    by (simp only: val) (simp add: q_def)
  then show ?thesis
    using res by blast
qed

lemma sample_run: "toBaseUnits (Fin 1000) (Some (Fin 3800)) 18 = Inr 263157000000000000"
proof -
  have a: "fl (1000 / 3800) = Fin (4740631186705785 / 2 ^ 54)"
    by (subst fl_eval [where e = "- 2"]) (simp_all add: pow2_def roundEven_def Let_def)
  have b: "fl (4740631186705785 / 2 ^ 54 * 1000000) = Fin (4521018206315789 / 2 ^ 34)"
    by (subst fl_eval [where e = "18"]) (simp_all add: pow2_def roundEven_def Let_def)
  show ?thesis
    using toBaseUnits_value [OF _ a _ b, of 18] by simp
qed

theorem toBaseUnits_close_witness:
  "toBaseUnits (Fin 1000) (Some (Fin 3800)) 18 = Inr 263157000000000000
   \<and> \<bar>real_of_int 263157000000000000 / 10 ^ 18 - 1000 / 3800\<bar>
       < 1 / 10 ^ 6 + 1000 / 3800 / 2 ^ 51"
  using toBaseUnits_close [of 1000 3800 18] sample_run by simp

section \<open>Properties of the route selection\<close>

lemmas parse_eval = parseFloat_def startsWith_def isWhite_def isDigit_def digitVal_def
  exponentPart_def scale10_def Let_def

subsection \<open>The order of numbers\<close>

lemma js_gt_trans: "js_gt a b \<Longrightarrow> js_gt b c \<Longrightarrow> js_gt a c"
  by (cases a; cases b; cases c) auto

lemma js_gt_irrefl: "\<not> js_gt a a"
  by (cases a) auto

lemma js_gt_not_NaN: "js_gt a b \<Longrightarrow> a \<noteq> NaN \<and> b \<noteq> NaN"
  by (cases a; cases b) auto

lemma js_gt_raise: "js_gt x b \<Longrightarrow> \<not> js_gt x c \<Longrightarrow> c \<noteq> NaN \<Longrightarrow> \<not> js_gt b c"
  by (cases x; cases b; cases c) auto

lemma js_gt_below: "\<not> js_gt x b \<Longrightarrow> \<not> js_gt b c \<Longrightarrow> b \<noteq> NaN \<Longrightarrow> c \<noteq> NaN \<Longrightarrow> \<not> js_gt x c"
  by (cases x; cases b; cases c) auto

subsection \<open>The loop over the manual routes\<close>

text \<open>
  The invariant of the loop: the best amount so far is a number, it never decreases, no
  candidate seen has a larger amount, and the route kept is the first one to reach it.
\<close>

lemma manualLoop_inv:
  assumes "manualLoop pf rs (b, m) = (b', m')" "b \<noteq> NaN"
  shows "b' \<noteq> NaN \<and> \<not> js_gt b b'
         \<and> (\<forall>j<length rs. hasAmount (rs ! j) \<longrightarrow> \<not> js_gt (pf (amountOf (rs ! j))) b')
         \<and> ((b' = b \<and> m' = m)
            \<or> (\<exists>i<length rs. m' = Some (rs ! i) \<and> hasAmount (rs ! i)
                   \<and> pf (amountOf (rs ! i)) = b' \<and> js_gt b' b
                   \<and> (\<forall>j<i. hasAmount (rs ! j) \<longrightarrow> pf (amountOf (rs ! j)) \<noteq> b')))"
  using assms
proof (induction rs arbitrary: b m)
  case Nil
  then show ?case by (simp add: js_gt_irrefl)
next
  case (Cons r rs)
  show ?case
  proof (cases "hasAmount r \<and> js_gt (pf (amountOf r)) b")
    case True
    define v where "v = pf (amountOf r)"
    have gt: "js_gt v b" and ha: "hasAmount r" using True by (simp_all add: v_def)
    have vn: "v \<noteq> NaN" using gt js_gt_not_NaN by blast
    have run: "manualLoop pf rs (v, Some r) = (b', m')"
      using Cons.prems(1) True by (simp add: v_def)
    note ih = Cons.IH [OF run vn]
    have n': "b' \<noteq> NaN" and le: "\<not> js_gt v b'" using ih by simp_all
    have mx: "\<forall>j<length rs. hasAmount (rs ! j) \<longrightarrow> \<not> js_gt (pf (amountOf (rs ! j))) b'"
      using ih by simp
    have i1: "\<not> js_gt b b'" using js_gt_raise [OF gt le n'] .
    have i2: "\<forall>j<length (r # rs). hasAmount ((r # rs) ! j)
                 \<longrightarrow> \<not> js_gt (pf (amountOf ((r # rs) ! j))) b'"
    proof (intro allI impI)
      fix j assume "j < length (r # rs)" "hasAmount ((r # rs) ! j)"
      then show "\<not> js_gt (pf (amountOf ((r # rs) ! j))) b'"
        using le mx by (cases j) (auto simp: v_def)
    qed
    from ih have "(b' = v \<and> m' = Some r)
            \<or> (\<exists>i<length rs. m' = Some (rs ! i) \<and> hasAmount (rs ! i)
                   \<and> pf (amountOf (rs ! i)) = b' \<and> js_gt b' v
                   \<and> (\<forall>j<i. hasAmount (rs ! j) \<longrightarrow> pf (amountOf (rs ! j)) \<noteq> b'))"
      by simp
    then have i3: "\<exists>i<length (r # rs). m' = Some ((r # rs) ! i) \<and> hasAmount ((r # rs) ! i)
                   \<and> pf (amountOf ((r # rs) ! i)) = b' \<and> js_gt b' b
                   \<and> (\<forall>j<i. hasAmount ((r # rs) ! j) \<longrightarrow> pf (amountOf ((r # rs) ! j)) \<noteq> b')"
    proof
      assume "b' = v \<and> m' = Some r"
      then show ?thesis
        using ha gt by (intro exI [of _ 0]) (simp add: v_def)
    next
      assume "\<exists>i<length rs. m' = Some (rs ! i) \<and> hasAmount (rs ! i)
                   \<and> pf (amountOf (rs ! i)) = b' \<and> js_gt b' v
                   \<and> (\<forall>j<i. hasAmount (rs ! j) \<longrightarrow> pf (amountOf (rs ! j)) \<noteq> b')"
      then obtain i where i: "i < length rs" "m' = Some (rs ! i)" "hasAmount (rs ! i)"
          "pf (amountOf (rs ! i)) = b'" "js_gt b' v"
          "\<forall>j<i. hasAmount (rs ! j) \<longrightarrow> pf (amountOf (rs ! j)) \<noteq> b'"
        by blast
      have ne: "v \<noteq> b'" using i(5) js_gt_irrefl by auto
      have "\<forall>j<Suc i. hasAmount ((r # rs) ! j) \<longrightarrow> pf (amountOf ((r # rs) ! j)) \<noteq> b'"
      proof (intro allI impI)
        fix j assume "j < Suc i" "hasAmount ((r # rs) ! j)"
        then show "pf (amountOf ((r # rs) ! j)) \<noteq> b'"
          using ne i(6) by (cases j) (auto simp: v_def)
      qed
      then show ?thesis
        using i js_gt_trans [OF i(5) gt] by (intro exI [of _ "Suc i"]) simp
    qed
    show ?thesis using n' i1 i2 i3 by blast
  next
    case False
    have run: "manualLoop pf rs (b, m) = (b', m')"
      using Cons.prems(1) False by auto
    note ih = Cons.IH [OF run Cons.prems(2)]
    have n': "b' \<noteq> NaN" and i1: "\<not> js_gt b b'" using ih by simp_all
    have mx: "\<forall>j<length rs. hasAmount (rs ! j) \<longrightarrow> \<not> js_gt (pf (amountOf (rs ! j))) b'"
      using ih by simp
    have skip: "hasAmount r \<Longrightarrow> \<not> js_gt (pf (amountOf r)) b" using False by simp
    have i2: "\<forall>j<length (r # rs). hasAmount ((r # rs) ! j)
                 \<longrightarrow> \<not> js_gt (pf (amountOf ((r # rs) ! j))) b'"
    proof (intro allI impI)
      fix j assume "j < length (r # rs)" "hasAmount ((r # rs) ! j)"
      then show "\<not> js_gt (pf (amountOf ((r # rs) ! j))) b'"
        using mx js_gt_below [OF skip i1 Cons.prems(2) n'] by (cases j) auto
    qed
    from ih have "(b' = b \<and> m' = m)
            \<or> (\<exists>i<length rs. m' = Some (rs ! i) \<and> hasAmount (rs ! i)
                   \<and> pf (amountOf (rs ! i)) = b' \<and> js_gt b' b
                   \<and> (\<forall>j<i. hasAmount (rs ! j) \<longrightarrow> pf (amountOf (rs ! j)) \<noteq> b'))"
      by simp
    then have i3: "(b' = b \<and> m' = m)
            \<or> (\<exists>i<length (r # rs). m' = Some ((r # rs) ! i) \<and> hasAmount ((r # rs) ! i)
                   \<and> pf (amountOf ((r # rs) ! i)) = b' \<and> js_gt b' b
                   \<and> (\<forall>j<i. hasAmount ((r # rs) ! j) \<longrightarrow> pf (amountOf ((r # rs) ! j)) \<noteq> b'))"
    proof
      assume "b' = b \<and> m' = m" then show ?thesis by simp
    next
      assume "\<exists>i<length rs. m' = Some (rs ! i) \<and> hasAmount (rs ! i)
                   \<and> pf (amountOf (rs ! i)) = b' \<and> js_gt b' b
                   \<and> (\<forall>j<i. hasAmount (rs ! j) \<longrightarrow> pf (amountOf (rs ! j)) \<noteq> b')"
      then obtain i where i: "i < length rs" "m' = Some (rs ! i)" "hasAmount (rs ! i)"
          "pf (amountOf (rs ! i)) = b'" "js_gt b' b"
          "\<forall>j<i. hasAmount (rs ! j) \<longrightarrow> pf (amountOf (rs ! j)) \<noteq> b'"
        by blast
      have ne: "hasAmount r \<Longrightarrow> pf (amountOf r) \<noteq> b'" using skip i(5) by auto
      have "\<forall>j<Suc i. hasAmount ((r # rs) ! j) \<longrightarrow> pf (amountOf ((r # rs) ! j)) \<noteq> b'"
      proof (intro allI impI)
        fix j assume "j < Suc i" "hasAmount ((r # rs) ! j)"
        then show "pf (amountOf ((r # rs) ! j)) \<noteq> b'"
          using ne i(6) by (cases j) auto
      qed
      then have "\<exists>k<length (r # rs). m' = Some ((r # rs) ! k) \<and> hasAmount ((r # rs) ! k)
                   \<and> pf (amountOf ((r # rs) ! k)) = b' \<and> js_gt b' b
                   \<and> (\<forall>j<k. hasAmount ((r # rs) ! j) \<longrightarrow> pf (amountOf ((r # rs) ! j)) \<noteq> b')"
        using i by (intro exI [of _ "Suc i"]) simp
      then show ?thesis by blast
    qed
    show ?thesis using n' i1 i2 i3 by blast
  qed
qed




subsection \<open>Best of both\<close>

text \<open>
  C5 (counterexample). No auto route, one manual route whose output is \<open>0\<close> and a
  legacy route of output 11: the loop over the manual routes keeps nothing, the legacy
  list is not looked at, and \<open>getBungeeQuote\<close> answers \<open>No routes found\<close>.
\<close>

theorem legacy_not_reached_counterexample:
  "autoRoute zeroManual = None
   \<and> manualRoutes zeroManual = Some [mkRoute ''0'' ''slow'']
   \<and> routes zeroManual = Some [mkRoute ''11'' ''legacy'']
   \<and> bestOfBoth parseFloat zeroManual = None
   \<and> singleQuoteOf offline zeroManual ''0.250000'' (Fin 4000) 18
       = errorQuote ''Bungee'' ''No routes found'' ''0.250000'' (Fin 4000)"
  by (simp add: zeroManual_def singleQuoteOf_def bestOfBoth_def hasAutoRoute_def
      bestManual_def mkRoute_def hasAmount_def amountOf_def parse_eval)

text \<open>
  C5 (amended). When the result has an auto route with an output object,
  \<open>getBungeeQuote\<close> selects it whatever the manual and legacy routes are, and the quote
  it returns does not depend on them. Without such an auto route and with a list of
  manual routes that is not empty, the selection is a manual route with an amount above
  zero that no manual route exceeds, the first of the list with that amount; when no
  manual route has an amount above zero nothing is selected, whatever the legacy list
  holds. The first legacy route is selected only when the list of manual routes is
  missing or empty; with no legacy route either, nothing is selected.
\<close>

theorem bestOfBoth_selection:
  "(autoRoute result = Some ar \<and> r_output ar \<noteq> None \<longrightarrow>
      bestOfBoth pf (result\<lparr>manualRoutes := m, routes := l\<rparr>) = Some (ar, ''Auto (Fastest)'')
      \<and> singleQuoteOf w (result\<lparr>manualRoutes := m, routes := l\<rparr>) inp tp d
        = singleQuoteOf w result inp tp d)
   \<and> ((\<forall>a. autoRoute result = Some a \<longrightarrow> r_output a = None)
        \<and> manualRoutes result = Some rs \<and> rs \<noteq> [] \<longrightarrow>
        (case bestOfBoth pf result of
           None \<Rightarrow>
             \<forall>j<length rs. hasAmount (rs ! j) \<longrightarrow> \<not> js_gt (pf (amountOf (rs ! j))) (Fin 0)
         | Some (r, ty) \<Rightarrow>
             ty = ''Manual (Best Rate)''
             \<and> (\<exists>i<length rs. rs ! i = r \<and> hasAmount r \<and> js_gt (pf (amountOf r)) (Fin 0)
                  \<and> (\<forall>j<length rs. hasAmount (rs ! j)
                         \<longrightarrow> \<not> js_gt (pf (amountOf (rs ! j))) (pf (amountOf r)))
                  \<and> (\<forall>j<i. hasAmount (rs ! j) \<longrightarrow> pf (amountOf (rs ! j)) \<noteq> pf (amountOf r)))))
   \<and> ((\<forall>a. autoRoute result = Some a \<longrightarrow> r_output a = None)
        \<and> (manualRoutes result = None \<or> manualRoutes result = Some []) \<longrightarrow>
        bestOfBoth pf result
          = (case routes result of Some (r # rest) \<Rightarrow> Some (r, ''Legacy'') | _ \<Rightarrow> None))"
proof -
  have auto: "bestOfBoth pf (result\<lparr>manualRoutes := m, routes := l\<rparr>) = Some (ar, ''Auto (Fastest)'')
      \<and> singleQuoteOf w (result\<lparr>manualRoutes := m, routes := l\<rparr>) inp tp d
        = singleQuoteOf w result inp tp d"
    if "autoRoute result = Some ar" "r_output ar \<noteq> None"
    using that by (auto simp: bestOfBoth_def singleQuoteOf_def hasAutoRoute_def)
  have manual: "(case bestOfBoth pf result of
           None \<Rightarrow>
             \<forall>j<length rs. hasAmount (rs ! j) \<longrightarrow> \<not> js_gt (pf (amountOf (rs ! j))) (Fin 0)
         | Some (r, ty) \<Rightarrow>
             ty = ''Manual (Best Rate)''
             \<and> (\<exists>i<length rs. rs ! i = r \<and> hasAmount r \<and> js_gt (pf (amountOf r)) (Fin 0)
                  \<and> (\<forall>j<length rs. hasAmount (rs ! j)
                         \<longrightarrow> \<not> js_gt (pf (amountOf (rs ! j))) (pf (amountOf r)))
                  \<and> (\<forall>j<i. hasAmount (rs ! j) \<longrightarrow> pf (amountOf (rs ! j)) \<noteq> pf (amountOf r))))"
    if na: "\<forall>a. autoRoute result = Some a \<longrightarrow> r_output a = None"
      and mr: "manualRoutes result = Some rs" and ne: "rs \<noteq> []"
  proof -
    have nh: "\<not> hasAutoRoute result"
      using na by (auto simp: hasAutoRoute_def split: option.splits)
    obtain b' m' where run: "manualLoop pf rs (Fin 0, None) = (b', m')"
      by (cases "manualLoop pf rs (Fin 0, None)") auto
    note inv = manualLoop_inv [OF run]
    have sel: "bestOfBoth pf result = map_option (\<lambda>r. (r, ''Manual (Best Rate)'')) m'"
      using nh mr ne run by (simp add: bestOfBoth_def bestManual_def split: option.splits)
    show ?thesis
    proof (cases m')
      case None
      then show ?thesis using inv sel by auto
    next
      case (Some r)
      then show ?thesis using inv sel by auto
    qed
  qed
  have legacy: "bestOfBoth pf result
          = (case routes result of Some (r # rest) \<Rightarrow> Some (r, ''Legacy'') | _ \<Rightarrow> None)"
    if na: "\<forall>a. autoRoute result = Some a \<longrightarrow> r_output a = None"
      and mr: "manualRoutes result = None \<or> manualRoutes result = Some []"
  proof -
    have nh: "\<not> hasAutoRoute result"
      using na by (auto simp: hasAutoRoute_def split: option.splits)
    show ?thesis
      using nh mr by (auto simp: bestOfBoth_def split: option.splits list.splits)
  qed
  show ?thesis
    using auto manual legacy by blast
qed

theorem bestOfBoth_selection_witness:
  "bestOfBoth parseFloat autoAndManual = Some (mkRoute ''5'' ''fast'', ''Auto (Fastest)'')
   \<and> fst (bestManual parseFloat (the (manualRoutes autoAndManual))) = Fin 9
   \<and> bestOfBoth parseFloat (autoAndManual\<lparr>autoRoute := None\<rparr>)
       = Some (mkRoute ''9'' ''c'', ''Manual (Best Rate)'')
   \<and> bestOfBoth parseFloat (autoAndManual\<lparr>autoRoute := None, manualRoutes := Some []\<rparr>)
       = Some (mkRoute ''11'' ''legacy'', ''Legacy'')"
  using bestOfBoth_selection
    [where result = autoAndManual and pf = parseFloat and ar = "mkRoute ''5'' ''fast''"
       and m = "manualRoutes autoAndManual" and l = "routes autoAndManual"
       and rs = "[mkRoute ''7'' ''b'', mkRoute ''9'' ''c'']"]
    bestOfBoth_selection
    [where result = "autoAndManual\<lparr>autoRoute := None\<rparr>" and pf = parseFloat
       and rs = "[mkRoute ''7'' ''b'', mkRoute ''9'' ''c'']"]
    bestOfBoth_selection
    [where result = "autoAndManual\<lparr>autoRoute := None, manualRoutes := Some []\<rparr>"
       and pf = parseFloat]
  by (simp add: autoAndManual_def hasAutoRoute_def mkRoute_def bestManual_def hasAmount_def
      amountOf_def bestOfBoth_def parse_eval)

section \<open>Evaluation of the text functions\<close>

text \<open>
  The equation of \<open>showNat\<close> at numerals only, so that the simplifier can run it on a
  literal without unfolding it under a variable.
\<close>

lemma showNat_numeral:
  "showNat (numeral k) =
     (if (numeral k :: nat) < 10 then [''0123456789'' ! numeral k]
      else showNat (numeral k div 10) @ [''0123456789'' ! (numeral k mod 10)])"
  by (rule showNat.simps)

lemma showNat_0: "showNat 0 = ''0''"
  by (simp add: showNat.simps [of 0])

lemma showNat_Suc0: "showNat (Suc 0) = ''1''"
  by (simp add: showNat.simps [of "Suc 0"])

lemma showNat_1: "showNat 1 = ''1''"
  by (simp add: showNat_Suc0)

lemmas showNat_eval = showNat_numeral showNat_0 showNat_Suc0 showNat_1

lemmas lower_eval = toLowerCase_def lowerChar_def

section \<open>Properties of the quotes\<close>

lemma quoteShape_errorQuote [simp]: "quoteShape (errorQuote prov err inp tp)"
  by (simp add: quoteShape_def errorQuote_def)

lemma quoteShape_success [simp]:
  "quoteShape \<lparr>outputAmount = a, estimatedTime = b, provider = c, route = Some d,
     error = None, inputTokenAmount = e, tokenPrice = f\<rparr>"
  by (simp add: quoteShape_def)

lemma quoteShape_lifiSuccess: "quoteShape (lifiSuccess w data d inp tp)"
  by (simp add: lifiSuccess_def Let_def split: option.splits)

lemma quoteShape_lifiQuoteOf: "quoteShape (lifiQuoteOf w resp d ta tp)"
  by (simp add: lifiQuoteOf_def quoteShape_lifiSuccess split: response.splits)

lemma quoteShape_getLiFiQuote:
  "quoteShape (fst (getLiFiQuote w fc ft tc tt usd k p tpr s))"
  by (simp add: getLiFiQuote_def Let_def quoteShape_lifiQuoteOf
      split: prod.splits sum.splits conv_error.splits)

lemma quoteShape_bungeeResultOf:
  "bungeeResultOf w resp ta tp = Inl q \<Longrightarrow> quoteShape q"
  by (auto simp: bungeeResultOf_def split: response.splits if_splits option.splits)

lemma quoteShape_bungeeRequest:
  "bungeeRequest w fc ft tc tt usd k p s = (Inl q, s1) \<Longrightarrow> quoteShape q"
  by (auto simp: bungeeRequest_def Let_def
      split: prod.splits sum.splits conv_error.splits if_splits
      dest: quoteShape_bungeeResultOf)

lemma quoteShape_autoQuoteOf: "quoteShape (autoQuoteOf w result inp tp d)"
  by (simp add: autoQuoteOf_def Let_def split: option.splits)

lemma quoteShape_manualQuoteOf: "quoteShape (manualQuoteOf w result inp tp d)"
  by (simp add: manualQuoteOf_def Let_def split: option.splits prod.splits)

lemma quoteShape_singleQuoteOf: "quoteShape (singleQuoteOf w result inp tp d)"
  by (simp add: singleQuoteOf_def Let_def split: option.splits prod.splits)

section \<open>Properties of the price resolution\<close>

lemma duration_value: "PRICE_CACHE_DURATION = 300000"
  by (simp add: PRICE_CACHE_DURATION_def)

subsection \<open>The strategies touch neither the cache nor the clock\<close>

lemma keeps_orElse: "keeps f \<Longrightarrow> keeps g \<Longrightarrow> keeps (orElse f g)"
  by (auto simp: keeps_def orElse_def split: prod.splits option.splits)
     (metis snd_conv)+

lemma keeps_symbol:
  "getTokenSymbolFromChainData w c a s = (r, s1) \<Longrightarrow> cache s1 = cache s \<and> ticks s1 = ticks s"
  by (auto simp: getTokenSymbolFromChainData_def fetchBungeeTokenList_def
      split: option.splits property.splits)

lemma keeps_matchToken:
  "matchToken w tokens c a s = (r, s1) \<Longrightarrow> cache s1 = cache s \<and> ticks s1 = ticks s"
  by (auto simp: matchToken_def Let_def split: option.splits prod.splits dest: keeps_symbol)

lemma keeps_native: "keeps (nativeStrategy w c t)"
  by (auto simp: keeps_def nativeStrategy_def fetchCoinGeckoSimple_def Let_def
      split: option.splits prod.splits property.splits)

lemma keeps_bungee: "keeps (bungeeStrategy w c a)"
  by (auto simp: keeps_def bungeeStrategy_def fetchBungeeTokenList_def
      split: option.splits prod.splits property.splits dest: keeps_matchToken)

lemma keeps_lifi: "keeps (lifiStrategy w c a)"
  by (auto simp: keeps_def lifiStrategy_def fetchLiFiTokenList_def
      split: option.splits prod.splits property.splits dest: keeps_matchToken)

lemma keeps_contract: "keeps (contractStrategy w a)"
  by (auto simp: keeps_def contractStrategy_def fetchCoinGeckoSimple_def
      split: property.splits)

lemma keeps_platform: "keeps (platformStrategy w c t a)"
  by (auto simp: keeps_def platformStrategy_def fetchCoinGeckoToken_def
      split: property.splits)

lemma keeps_cascade: "keeps (cascade w c t)"
  by (simp add: cascade_def Let_def keeps_orElse keeps_native keeps_bungee keeps_lifi
      keeps_contract keeps_platform)

lemma cascade_frame:
  "cascade w c t s = (r, s1) \<Longrightarrow> cache s1 = cache s \<and> ticks s1 = ticks s"
  using keeps_cascade [of w c t] by (auto simp: keeps_def dest: spec [of _ s])

subsection \<open>What a resolution leaves in the cache\<close>

lemma resolvePrice_effect:
  assumes "resolvePrice w c t s = (p, s1)"
  shows "cache s1 = (cache s)(cacheKey_of c t \<mapsto> \<lparr>price = p, timestamp = clock w (ticks s)\<rparr>)"
    and "ticks s1 = Suc (ticks s)"
  using assms
  by (auto simp: resolvePrice_def cacheSet_def Date_now_def Let_def
      split: prod.splits option.splits dest: cascade_frame)

lemma getTokenPrice_hit:
  assumes "cache s (cacheKey_of c t) = Some e"
    and "clock w (ticks s) - timestamp e < PRICE_CACHE_DURATION"
  shows "getTokenPrice w c t s = (price e, s\<lparr>ticks := Suc (ticks s)\<rparr>)"
  using assms by (simp add: getTokenPrice_def Date_now_def)

lemma getTokenPrice_stale:
  assumes "cache s (cacheKey_of c t) = Some e"
    and "\<not> clock w (ticks s) - timestamp e < PRICE_CACHE_DURATION"
  shows "getTokenPrice w c t s = resolvePrice w c t (s\<lparr>ticks := Suc (ticks s)\<rparr>)"
  using assms by (simp add: getTokenPrice_def Date_now_def)

lemma getTokenPrice_absent:
  assumes "cache s (cacheKey_of c t) = None"
  shows "getTokenPrice w c t s = resolvePrice w c t s"
  using assms by (simp add: getTokenPrice_def)

lemma getTokenPrice_cached:
  assumes "getTokenPrice w c t s = (p, s1)"
  shows "\<exists>e. cache s1 (cacheKey_of c t) = Some e \<and> price e = p"
proof (cases "cache s (cacheKey_of c t)")
  case None
  then show ?thesis
    using assms resolvePrice_effect(1) [of w c t s p s1] by (simp add: getTokenPrice_absent)
next
  case (Some e)
  show ?thesis
  proof (cases "clock w (ticks s) - timestamp e < PRICE_CACHE_DURATION")
    case True
    then show ?thesis using assms Some by (auto simp: getTokenPrice_hit)
  next
    case False
    then show ?thesis
      using assms Some resolvePrice_effect(1) [of w c t "s\<lparr>ticks := Suc (ticks s)\<rparr>" p s1]
      by (simp add: getTokenPrice_stale)
  qed
qed

lemma getTokenPrice_dom:
  assumes "getTokenPrice w c t s = (p, s1)"
  shows "dom (cache s) \<subseteq> dom (cache s1)"
proof (cases "cache s (cacheKey_of c t)")
  case None
  then show ?thesis
    using assms resolvePrice_effect(1) [of w c t s p s1] by (auto simp: getTokenPrice_absent)
next
  case (Some e)
  show ?thesis
  proof (cases "clock w (ticks s) - timestamp e < PRICE_CACHE_DURATION")
    case True
    then show ?thesis using assms Some by (auto simp: getTokenPrice_hit)
  next
    case False
    then show ?thesis
      using assms Some resolvePrice_effect(1) [of w c t "s\<lparr>ticks := Suc (ticks s)\<rparr>" p s1]
      by (auto simp: getTokenPrice_stale)
  qed
qed

text \<open>
  C6. After any call of \<open>getTokenPrice\<close> the cache holds the price returned under the
  key of the token. From any state whose entry for the key is less than five minutes
  old at the reading of the clock, a call returns the cached price and changes nothing
  but the count of clock readings: no request is sent. From a state whose entry is five
  minutes old or more, a call runs the resolution as for a missing entry and leaves a
  new entry with the price it returns and the time of its write. No call removes a key
  from the cache.
\<close>

theorem cache_ttl:
  assumes "getTokenPrice w c t s = (p, s1)"
  shows "(\<exists>e. cache s1 (cacheKey_of c t) = Some e \<and> price e = p)
    \<and> (\<forall>s2 e. cache s2 (cacheKey_of c t) = Some e
           \<and> clock w (ticks s2) - timestamp e < PRICE_CACHE_DURATION
         \<longrightarrow> getTokenPrice w c t s2 = (price e, s2\<lparr>ticks := Suc (ticks s2)\<rparr>))
    \<and> (\<forall>s2 e. cache s2 (cacheKey_of c t) = Some e
           \<and> \<not> clock w (ticks s2) - timestamp e < PRICE_CACHE_DURATION
         \<longrightarrow> getTokenPrice w c t s2 = resolvePrice w c t (s2\<lparr>ticks := Suc (ticks s2)\<rparr>)
           \<and> cache (snd (getTokenPrice w c t s2)) (cacheKey_of c t)
               = Some \<lparr>price = fst (getTokenPrice w c t s2),
                       timestamp = clock w (Suc (ticks s2))\<rparr>)
    \<and> dom (cache s) \<subseteq> dom (cache s1)"
proof -
  have stale: "cache (snd (getTokenPrice w c t s2)) (cacheKey_of c t)
               = Some \<lparr>price = fst (getTokenPrice w c t s2),
                       timestamp = clock w (Suc (ticks s2))\<rparr>"
    if "cache s2 (cacheKey_of c t) = Some e"
      "\<not> clock w (ticks s2) - timestamp e < PRICE_CACHE_DURATION" for s2 e
  proof -
    obtain p2 s3 where r: "resolvePrice w c t (s2\<lparr>ticks := Suc (ticks s2)\<rparr>) = (p2, s3)"
      by (cases "resolvePrice w c t (s2\<lparr>ticks := Suc (ticks s2)\<rparr>)") auto
    show ?thesis
      using that r resolvePrice_effect(1) [OF r] by (simp add: getTokenPrice_stale)
  qed
  show ?thesis
    using getTokenPrice_cached [OF assms] getTokenPrice_dom [OF assms]
      getTokenPrice_hit getTokenPrice_stale stale
    by blast
qed

text \<open>
  C10 (amended). When the cache has no entry for the key that is less than five minutes
  old, the call writes the price it returns into the cache under the key, with the
  last reading of the clock as timestamp, whichever strategy or fallback produced the
  price. Every later call from a state with that entry, less than five minutes after
  that timestamp, returns the same price and sends no request. When no strategy finds a
  price, the price written and returned is \<open>1.0\<close>.
\<close>

theorem miss_writes_cache:
  assumes miss: "\<forall>e. cache s (cacheKey_of c t) = Some e
                  \<longrightarrow> \<not> clock w (ticks s) - timestamp e < PRICE_CACHE_DURATION"
    and run: "getTokenPrice w c t s = (p, s1)"
  shows "cache s1 (cacheKey_of c t) = Some \<lparr>price = p, timestamp = clock w (ticks s1 - 1)\<rparr>
    \<and> (\<forall>s2. cache s2 (cacheKey_of c t) = cache s1 (cacheKey_of c t)
           \<and> clock w (ticks s2) - clock w (ticks s1 - 1) < PRICE_CACHE_DURATION
         \<longrightarrow> getTokenPrice w c t s2 = (p, s2\<lparr>ticks := Suc (ticks s2)\<rparr>))
    \<and> ((\<forall>s'. fst (cascade w c t s') = None) \<longrightarrow> p = Number (Fin 1))"
proof -
  obtain s0 where s0: "resolvePrice w c t s0 = (p, s1)"
    and s0_cases: "s0 = s \<or> s0 = s\<lparr>ticks := Suc (ticks s)\<rparr>"
  proof (cases "cache s (cacheKey_of c t)")
    case None
    then show ?thesis using run that by (simp add: getTokenPrice_absent)
  next
    case (Some e)
    then show ?thesis using run miss that by (simp add: getTokenPrice_stale)
  qed
  have entry: "cache s1 (cacheKey_of c t)
                 = Some \<lparr>price = p, timestamp = clock w (ticks s1 - 1)\<rparr>"
    using resolvePrice_effect [OF s0] by simp
  have later: "getTokenPrice w c t s2 = (p, s2\<lparr>ticks := Suc (ticks s2)\<rparr>)"
    if "cache s2 (cacheKey_of c t) = cache s1 (cacheKey_of c t)"
      "clock w (ticks s2) - clock w (ticks s1 - 1) < PRICE_CACHE_DURATION" for s2
    using that entry
      getTokenPrice_hit [of s2 c t "\<lparr>price = p, timestamp = clock w (ticks s1 - 1)\<rparr>" w]
    by simp
  have fallback: "p = Number (Fin 1)" if "\<forall>s'. fst (cascade w c t s') = None"
  proof -
    have "fst (cascade w c t s0) = None" using that by blast
    then show ?thesis
      using s0 by (auto simp: resolvePrice_def lastResort_def Let_def split: prod.splits)
  qed
  show ?thesis using entry later fallback by blast
qed

subsection \<open>Runs of the price resolution\<close>

lemma lower_abc: "toLowerCase ''0xabc'' = ''0xabc''"
  by (simp add: lower_eval)

lemma lower_zero: "toLowerCase zeroAddress = zeroAddress"
  by (simp add: lower_eval zeroAddress_def)


lemma native_abc: "\<not> isNativeToken ''0xabc''"
  by (simp add: isNativeToken_def lower_abc zeroAddress_def eAddress_def)

lemma native_zero: "isNativeToken zeroAddress"
  by (simp add: isNativeToken_def lower_zero)


lemma cascade_offline_abc: "fst (cascade offline ''1'' ''0xabc'' s) = None"
  by (simp add: cascade_def Let_def lower_abc orElse_def nativeStrategy_def native_abc
      bungeeStrategy_def fetchBungeeTokenList_def bungeeChainTokens_def lifiStrategy_def
      fetchLiFiTokenList_def lifiChainTokens_def contractStrategy_def knownTokenContracts_def
      platformStrategy_def platformMappings_def fetchCoinGeckoToken_def cgUsd_def offline_def
      getProperty_def objectPrototype_def)

lemma resolve_offline_abc:
  "resolvePrice offline ''1'' ''0xabc'' s
     = (Number (Fin 1),
        s\<lparr>calls := calls s @ [BungeeTokenList, LiFiTokenList (Some ''1''),
                                CoinGeckoTokenPrice ''ethereum'' ''0xabc''],
          ticks := Suc (ticks s),
          cache := (cache s)(cacheKey_of ''1'' ''0xabc''
                      \<mapsto> \<lparr>price = Number (Fin 1), timestamp = 1000 * int (ticks s)\<rparr>)\<rparr>)"
  by (simp add: resolvePrice_def cascade_def lower_abc orElse_def nativeStrategy_def native_abc
      bungeeStrategy_def fetchBungeeTokenList_def bungeeChainTokens_def lifiStrategy_def
      fetchLiFiTokenList_def lifiChainTokens_def contractStrategy_def knownTokenContracts_def
      platformStrategy_def platformMappings_def fetchCoinGeckoToken_def cgUsd_def offline_def
      lastResort_def cacheSet_def Date_now_def Let_def getProperty_def objectPrototype_def)


text \<open>
  C10 (counterexample). A call that finds an entry less than five minutes old returns its
  price without writing the cache: after the call, made at time 5000, the entry still
  carries the timestamp 0 of its first write.
\<close>

theorem cache_hit_counterexample:
  "getTokenPrice offline ''1'' ''0xabc'' cachedState = (Number (Fin 2), cachedState\<lparr>ticks := 6\<rparr>)
   \<and> cache (cachedState\<lparr>ticks := 6\<rparr>) (cacheKey_of ''1'' ''0xabc'')
       = Some \<lparr>price = Number (Fin 2), timestamp = 0\<rparr>
   \<and> clock offline 5 = 5000"
  by (simp add: getTokenPrice_def cachedState_def Date_now_def offline_def
      PRICE_CACHE_DURATION_def)

text \<open>
  C3. The spot-price feed answers the request for the native token of chain 1 with a
  price of \<open>-1\<close>. The native strategy takes any truthy \<open>usd\<close> value, so
  \<open>getTokenPrice\<close> returns \<open>-1\<close>, which is not above zero. The two token-list
  strategies of the same function do check \<open>> 0\<close> before they take a price.
\<close>

theorem negative_feed_price:
  "fst (getTokenPrice negativeFeed ''1'' zeroAddress start) = Number (Fin (- 1))
   \<and> \<not> js_gt (Fin (- 1)) (Fin 0)"
  by (simp add: getTokenPrice_def start_def resolvePrice_def cascade_def orElse_def
      nativeStrategy_def native_zero nativeTokenSymbols_def fetchCoinGeckoSimple_def
      negativeFeed_def offline_def cgUsd_def getProperty_def Let_def)










theorem cache_ttl_witness:
  "getTokenPrice offline ''1'' ''0xabc'' start
     = (Number (Fin 1), \<lparr>cache = [cacheKey_of ''1'' ''0xabc'' \<mapsto> \<lparr>price = Number (Fin 1), timestamp = 0\<rparr>],
               calls = [BungeeTokenList, LiFiTokenList (Some ''1''),
                        CoinGeckoTokenPrice ''ethereum'' ''0xabc''],
               ticks = 1\<rparr>)
   \<and> getTokenPrice offline ''1'' ''0xabc''
       \<lparr>cache = [cacheKey_of ''1'' ''0xabc'' \<mapsto> \<lparr>price = Number (Fin 1), timestamp = 0\<rparr>],
        calls = [BungeeTokenList, LiFiTokenList (Some ''1''),
                 CoinGeckoTokenPrice ''ethereum'' ''0xabc''],
        ticks = 1\<rparr>
     = (Number (Fin 1), \<lparr>cache = [cacheKey_of ''1'' ''0xabc'' \<mapsto> \<lparr>price = Number (Fin 1), timestamp = 0\<rparr>],
               calls = [BungeeTokenList, LiFiTokenList (Some ''1''),
                        CoinGeckoTokenPrice ''ethereum'' ''0xabc''],
               ticks = 2\<rparr>)"
proof -
  let ?s1 = "\<lparr>cache = [cacheKey_of ''1'' ''0xabc'' \<mapsto> \<lparr>price = Number (Fin 1), timestamp = 0\<rparr>],
               calls = [BungeeTokenList, LiFiTokenList (Some ''1''),
                        CoinGeckoTokenPrice ''ethereum'' ''0xabc''],
               ticks = 1\<rparr>"
  have first: "getTokenPrice offline ''1'' ''0xabc'' start = (Number (Fin 1), ?s1)"
    by (simp add: getTokenPrice_def start_def resolve_offline_abc)
  have "getTokenPrice offline ''1'' ''0xabc'' ?s1
          = (price \<lparr>price = Number (Fin 1), timestamp = 0\<rparr>, ?s1\<lparr>ticks := Suc (ticks ?s1)\<rparr>)"
    using cache_ttl [OF first, THEN conjunct2, THEN conjunct1, rule_format,
        of ?s1 "\<lparr>price = Number (Fin 1), timestamp = 0\<rparr>"]
    by (simp add: offline_def PRICE_CACHE_DURATION_def)
  then show ?thesis using first by simp
qed

theorem miss_writes_cache_witness:
  "cache (snd (getTokenPrice offline ''1'' ''0xabc'' start)) (cacheKey_of ''1'' ''0xabc'')
     = Some \<lparr>price = Number (Fin 1), timestamp = 0\<rparr>
   \<and> fst (getTokenPrice offline ''1'' ''0xabc'' start) = Number (Fin 1)"
proof -
  have first: "getTokenPrice offline ''1'' ''0xabc'' start
      = (Number (Fin 1), snd (getTokenPrice offline ''1'' ''0xabc'' start))"
    by (simp add: getTokenPrice_def resolve_offline_abc start_def)
  have t: "ticks (snd (getTokenPrice offline ''1'' ''0xabc'' start)) = 1"
    by (simp add: getTokenPrice_def resolve_offline_abc start_def)
  have c: "clock offline 0 = 0"
    by (simp add: offline_def)
  have m: "\<forall>e. cache start (cacheKey_of ''1'' ''0xabc'') = Some e
             \<longrightarrow> \<not> clock offline (ticks start) - timestamp e < PRICE_CACHE_DURATION"
    by (simp add: start_def)
  have "cache (snd (getTokenPrice offline ''1'' ''0xabc'' start)) (cacheKey_of ''1'' ''0xabc'')
     = Some \<lparr>price = Number (Fin 1), timestamp = clock offline (1 - 1)\<rparr>"
    using miss_writes_cache [OF m first, THEN conjunct1] by (simp only: t)
  then show ?thesis
    using first c by (simp add: prod_eq_iff)
qed

subsection \<open>Runs of the adapters\<close>

lemma lower_usdc: "toLowerCase usdcAddress = ''0x2791bca1f2de4661ed88a30c99a7a9449aa84174''"
  by (simp add: lower_eval usdcAddress_def)

lemma norm_zero: "normalizeTokenAddress zeroAddress True = zeroAddress"
  by (simp add: normalizeTokenAddress_def lower_zero Let_def) (simp add: zeroAddress_def)


lemma norm_usdc: "normalizeTokenAddress usdcAddress b = usdcAddress"
  by (simp add: normalizeTokenAddress_def lower_usdc Let_def zeroAddress_def eAddress_def)

lemma find_usdc: "findByAddress [usdcToken] (toLowerCase usdcAddress) = Some usdcToken"
  by (simp add: findByAddress_def usdcToken_def)


lemma usdc_decimals: "decimals usdcToken = Some 6"
  by (simp add: usdcToken_def)

lemmas convert_eval = toBaseUnits_def tokenPrice_of_def tokenAmount_of_def invalidAmount_def
  tokenAmountBigInt_def bigint_div_def showInt_def

lemmas lifi_run = getLiFiQuote_def Let_def norm_zero norm_usdc find_usdc usdc_decimals
  fetchLiFiTokenList_def lifiAnswers_def offline_def start_def
  listDecimals_def tokenDecimals_def lifiChainTokens_def getProperty_def objectPrototype_def
  convert_eval fl_values
  fetchLiFiQuote_def lifiQuoteOf_def lifiSuccess_def lifiToAmount_def lifiEstimate_def
  orStr_def parse_eval Math_pow10_def toFixed_def minutes_def placeholderAccount_def
  errorQuote_def


lemma lifi_dust:
  "fst (getLiFiQuote (lifiAnswers ''1'') ''1'' zeroAddress ''137'' usdcAddress
        (Fin 1000) None (Some (Fin 4000)) (Some (Fin 1)) start)
   = \<lparr>outputAmount = ''0.00'', estimatedTime = ''2 min'', provider = ''LiFi Bridge'',
       route = Some ''LiFi Bridge'', error = None, inputTokenAmount = ''0.250000'',
       tokenPrice = Fin 4000\<rparr>"
  by (simp add: lifi_run) (simp add: showNat_eval)

lemma parse_zero: "parseFloat ''0.00'' = Fin 0"
  by (simp add: parse_eval)

text \<open>
  C2 (counterexample). The cross-chain aggregator answers with an output of one base
  unit of a six-decimal token. The quote has no error and shows \<open>"0.00"\<close>, which
  parses to zero: it is neither a success with an output above zero nor an error.
\<close>

theorem lifi_dust_counterexample:
  "error (fst (getLiFiQuote (lifiAnswers ''1'') ''1'' zeroAddress ''137'' usdcAddress
        (Fin 1000) None (Some (Fin 4000)) (Some (Fin 1)) start)) = None
   \<and> outputAmount (fst (getLiFiQuote (lifiAnswers ''1'') ''1'' zeroAddress ''137'' usdcAddress
        (Fin 1000) None (Some (Fin 4000)) (Some (Fin 1)) start)) = ''0.00''
   \<and> \<not> js_gt (parseFloat ''0.00'') (Fin 0)"
  by (simp add: lifi_dust parse_zero)

text \<open>
  C2 (amended). Every quote that \<open>getLiFiQuote\<close>, \<open>getBungeeQuotesBoth\<close> (both of
  its quotes) and \<open>getBungeeQuote\<close> return either has an error, shows \<open>"0.0000"\<close>
  and has no route, or has no error and has a route; never both.
\<close>

theorem adapter_quote_shape:
  "quoteShape (fst (getLiFiQuote w fc ft tc tt usd k p tpr s))
   \<and> quoteShape (fst (fst (getBungeeQuotesBoth w fc ft tc tt usd k p tpr s)))
   \<and> quoteShape (snd (fst (getBungeeQuotesBoth w fc ft tc tt usd k p tpr s)))
   \<and> quoteShape (fst (getBungeeQuote w fc ft tc tt usd k p tpr s))"
proof -
  have both: "quoteShape (fst (fst (getBungeeQuotesBoth w fc ft tc tt usd k p tpr s)))
      \<and> quoteShape (snd (fst (getBungeeQuotesBoth w fc ft tc tt usd k p tpr s)))"
    by (auto simp: getBungeeQuotesBoth_def quoteShape_autoQuoteOf quoteShape_manualQuoteOf
        split: prod.splits sum.splits dest: quoteShape_bungeeRequest)
  have single: "quoteShape (fst (getBungeeQuote w fc ft tc tt usd k p tpr s))"
    by (auto simp: getBungeeQuote_def quoteShape_singleQuoteOf
        split: prod.splits sum.splits dest: quoteShape_bungeeRequest)
  show ?thesis using quoteShape_getLiFiQuote both single by blast
qed

theorem adapter_quote_shape_witness:
  "quoteShape (fst (getLiFiQuote (lifiAnswers ''1'') ''1'' zeroAddress ''137'' usdcAddress
        (Fin 1000) None (Some (Fin 4000)) (Some (Fin 1)) start))
   \<and> route (fst (getLiFiQuote (lifiAnswers ''1'') ''1'' zeroAddress ''137'' usdcAddress
        (Fin 1000) None (Some (Fin 4000)) (Some (Fin 1)) start)) = Some ''LiFi Bridge''"
  using adapter_quote_shape [of "lifiAnswers ''1''" "''1''" zeroAddress "''137''" usdcAddress
      "Fin 1000" None "Some (Fin 4000)" "Some (Fin 1)" start]
  by (simp add: lifi_dust)

lemma tokenPrice_of_cases: "(\<exists>a>0. tokenPrice_of p = Fin a) \<or> tokenPrice_of p = PosInf"
proof (cases p)
  case None
  then show ?thesis by (simp add: tokenPrice_of_def)
next
  case (Some x)
  then show ?thesis by (cases x) (auto simp: tokenPrice_of_def)
qed

lemma js_div_nonpos:
  assumes "x \<le> 0" "0 < a"
  shows "invalidAmount (js_div (Fin x) (Fin a))"
proof -
  have "x / a \<le> 0" using assms by (simp add: divide_le_0_iff)
  then show ?thesis
    using fl_nonpos [of "x / a"] assms(2) by (auto simp: invalidAmount_def)
qed

lemma invalid_usd:
  assumes "\<not> isFinite u \<or> js_le u (Fin 0)"
  shows "toBaseUnits u p d = Inl InvalidAmount"
proof -
  have "invalidAmount (tokenAmount_of u (tokenPrice_of p))"
  proof (cases u)
    case (Fin x)
    then show ?thesis
      using assms tokenPrice_of_cases [of p] js_div_nonpos [of x]
      by (auto simp: tokenAmount_of_def) (simp add: invalidAmount_def)
  next
    case PosInf
    then show ?thesis
      using tokenPrice_of_cases [of p] by (auto simp: invalidAmount_def tokenAmount_of_def)
  next
    case NegInf
    then show ?thesis
      using tokenPrice_of_cases [of p] by (auto simp: invalidAmount_def tokenAmount_of_def)
  next
    case NaN
    then show ?thesis by (simp add: invalidAmount_def tokenAmount_of_def)
  qed
  then show ?thesis
    by (simp add: toBaseUnits_def Let_def)
qed

text \<open>
  C4 (amended). When the amount in dollars is not finite or not above zero, each adapter
  returns the error quote \<open>Invalid amount\<close> with output \<open>"0.0000"\<close>, whatever the
  unit price is, and the only request it has sent is the one for the token list: no
  quote request is made.
\<close>

theorem invalid_amount_no_quote_call:
  assumes "\<not> isFinite usd \<or> js_le usd (Fin 0)"
  shows "getLiFiQuote w fc ft tc tt usd k p tpr s
           = (errorQuote ''LiFi'' ''Invalid amount'' ''0'' (tokenPrice_of p),
              s\<lparr>calls := calls s @ [LiFiTokenList None]\<rparr>)
    \<and> getBungeeQuotesBoth w fc ft tc tt usd k p tpr s
           = ((errorQuote ''Bungee'' ''Invalid amount'' ''0'' (tokenPrice_of p),
               errorQuote ''Bungee'' ''Invalid amount'' ''0'' (tokenPrice_of p)),
              s\<lparr>calls := calls s @ [BungeeTokenList]\<rparr>)
    \<and> getBungeeQuote w fc ft tc tt usd k p tpr s
           = (errorQuote ''Bungee'' ''Invalid amount'' ''0'' (tokenPrice_of p),
              s\<lparr>calls := calls s @ [BungeeTokenList]\<rparr>)"
  by (simp add: getLiFiQuote_def getBungeeQuotesBoth_def getBungeeQuote_def bungeeRequest_def
      fetchLiFiTokenList_def fetchBungeeTokenList_def Let_def invalid_usd [OF assms])

theorem invalid_amount_no_quote_call_witness:
  "\<not> isFinite PosInf
   \<and> getLiFiQuote offline ''1'' zeroAddress ''137'' usdcAddress PosInf None (Some (Fin 4000))
        None start
       = (errorQuote ''LiFi'' ''Invalid amount'' ''0'' (Fin 4000),
          start\<lparr>calls := [LiFiTokenList None]\<rparr>)"
  using invalid_amount_no_quote_call [of PosInf offline "''1''" zeroAddress "''137''"
      usdcAddress None "Some (Fin 4000)" None start]
  by (simp add: tokenPrice_of_def start_def)

text \<open>
  C4 (counterexample). With a unit price of zero and an amount of 1000 dollars the price
  is replaced by 1, the conversion returns \<open>1000 * 10^18\<close> base units, and the adapter
  sends the quote request; the error of the quote is the rejection of that request, not
  \<open>Invalid amount\<close>.
\<close>

theorem zero_price_counterexample:
  "getLiFiQuote offline ''1'' zeroAddress ''137'' usdcAddress
        (Fin 1000) None (Some (Fin 0)) (Some (Fin 1)) start
   = (errorQuote ''LiFi'' ''fetch failed'' ''0'' (Fin 0),
      \<lparr>cache = Map.empty, calls = [LiFiTokenList None, LiFiQuoteRequest
         \<lparr>p_fromChain = ''1'', p_toChain = ''137'',
          p_fromToken = zeroAddress, p_toToken = usdcAddress,
          p_amount = ''1000000000000000000000'',
          p_account = placeholderAccount, p_apiKey = None\<rparr>],
       ticks = 0\<rparr>)
   \<and> toBaseUnits (Fin 1000) (Some (Fin 0)) 18 = Inr 1000000000000000000000"
  by (simp add: lifi_run) (simp add: showNat_eval)

subsection \<open>The rendering of the output amount\<close>

















lemma listDecimals_dest:
  assumes "resolvedDecimals tokens tc tok = dn"
    and "fc \<notin> set objectPrototype \<or> map_of tokens fc \<noteq> None"
  shows "snd (listDecimals (getProperty tokens) fc ftok tc tok) = dn"
  using assms
  by (auto simp: listDecimals_def getProperty_def resolvedDecimals_def tokenDecimals_def
      findByAddress_def Let_def split: option.splits)


lemma bungeeChainTokens_ok:
  "bungeeChainTokens (HttpOk \<lparr>bt_success = True, bt_result = Some tokens\<rparr>) = getProperty tokens"
  by (rule ext) (simp add: bungeeChainTokens_def)


lemma bungee_result:
  assumes list: "bungeeTokenList w (calls s)
                   = HttpOk \<lparr>bt_success = True, bt_result = Some tokens\<rparr>"
    and src: "fc \<notin> set objectPrototype \<or> map_of tokens fc \<noteq> None"
    and dest: "resolvedDecimals tokens tc (normalizeTokenAddress tt False) = dn"
    and sent: "calls (snd (bungeeRequest w fc ft tc tt usd k p s))
                 = calls s @ [BungeeTokenList, BungeeQuoteRequest ps]"
    and answer: "bungeeQuote w (calls s @ [BungeeTokenList]) ps = HttpOk body"
      "b_success body" "b_result body = Some result"
  shows "\<exists>inp tp. fst (bungeeRequest w fc ft tc tt usd k p s) = Inr (result, inp, tp, dn)"
proof -
  obtain fd td where decs:
    "listDecimals (getProperty tokens) fc (normalizeTokenAddress ft False) tc
       (normalizeTokenAddress tt False) = (fd, td)"
    by (cases "listDecimals (getProperty tokens) fc (normalizeTokenAddress ft False) tc
       (normalizeTokenAddress tt False)") auto
  have td: "td = dn"
    using listDecimals_dest [OF dest src, of "normalizeTokenAddress ft False"] decs by simp
  show ?thesis
  proof (cases "toBaseUnits usd p fd")
    case (Inl err)
    then have "calls (snd (bungeeRequest w fc ft tc tt usd k p s))
                 = calls s @ [BungeeTokenList]"
      by (cases err)
         (simp_all add: bungeeRequest_def fetchBungeeTokenList_def list bungeeChainTokens_ok
            decs Let_def)
    then show ?thesis using sent by simp
  next
    case (Inr n)
    have ps: "ps = \<lparr>p_fromChain = fc, p_toChain = tc,
                 p_fromToken = normalizeTokenAddress ft False,
                 p_toToken = normalizeTokenAddress tt False,
                 p_amount = showInt n, p_account = placeholderAccount,
                 p_apiKey = (if truthy_str k then k else None)\<rparr>"
      using sent Inr
      by (auto simp: bungeeRequest_def fetchBungeeTokenList_def fetchBungeeQuote_def list
          bungeeChainTokens_ok decs Let_def split: sum.splits)
    show ?thesis
      using Inr answer
      by (simp add: bungeeRequest_def fetchBungeeTokenList_def fetchBungeeQuote_def list
          bungeeChainTokens_ok decs Let_def ps [symmetric] bungeeResultOf_def td)
  qed
qed

























text \<open>
  The quotient is a double: 1005000 base units of six decimals are shown as \<open>"1.00"\<close>,
  because the double nearest to \<open>1.005\<close> lies below it.
\<close>

lemma half_cent:
  "toFixed e 2 (js_div (parseFloat ''1005000'') (Math_pow10 pw 6)) = ''1.00''"
proof -
  have q: "fl (201 / 200) = Fin (4526117625507348 / 2 ^ 52)"
    by (subst fl_eval [where e = "0"]) (simp_all add: pow2_def roundEven_def Let_def)
  show ?thesis
    using q by (simp add: parse_eval Math_pow10_def toFixed_def) (simp add: showNat_eval)
qed

subsection \<open>Side facts on the runs\<close>

text \<open>
  The conversion raises when the product with \<open>10^6\<close> overflows: \<open>Math.floor\<close> leaves
  Infinity as it is and \<open>BigInt\<close> refuses it. The outermost handler of the adapter then
  reports the message of the RangeError.
\<close>

lemma toBaseUnits_overflow:
  "toBaseUnits (Fin (2 ^ 1023)) (Some (Fin 1)) 18
     = Inl (Thrown
         ''The number Infinity cannot be converted to a BigInt because it is not an integer'')"
proof -
  have a: "fl (2 ^ 1023) = Fin (2 ^ 1023)"
    by (subst fl_eval [where e = "1023"]) (simp_all add: pow2_def roundEven_def Let_def)
  have b: "fl (2 ^ 1023 * 1000000) = PosInf"
    by (subst fl_eval [where e = "1042"]) (simp_all add: pow2_def roundEven_def Let_def)
  show ?thesis
    using a b by (simp add: convert_eval)
qed

text \<open>
  The token-list strategies refuse a price that is not above zero, as the price-feed
  strategies do not.
\<close>

lemma token_list_price_checked:
  "validPriceInUsd (JNum (Fin (- 1))) = None" "validPriceUSD (JNum (Fin (- 1))) = None"
  "cgUsd (HttpOk [(k, Some (Fin (- 1)))]) k = Some (Fin (- 1))"
  by (simp_all add: cgUsd_def getProperty_def)

text \<open>
  An auto route whose amount is the text \<open>"0"\<close> gives a quote without error in
  \<open>getBungeeQuotesBoth\<close>, and the error \<open>No output amount\<close> in \<open>getBungeeQuote\<close>.
\<close>

lemma zero_amount_auto_route:
  "autoQuoteOf offline
     \<lparr>autoRoute = Some (mkRoute ''0'' ''fast''), manualRoutes = None, routes = None\<rparr>
     ''0.250000'' (Fin 4000) 18
   = \<lparr>outputAmount = ''0.0000'', estimatedTime = ''5 min'', provider = ''fast (Auto)'',
      route = Some ''fast (Auto)'', error = None, inputTokenAmount = ''0.250000'',
      tokenPrice = Fin 4000\<rparr>"
  "singleQuoteOf offline
     \<lparr>autoRoute = Some (mkRoute ''0'' ''fast''), manualRoutes = None, routes = None\<rparr>
     ''0.250000'' (Fin 4000) 18
   = errorQuote ''Bungee'' ''No output amount'' ''0.250000'' (Fin 4000)"
  by (simp_all add: autoQuoteOf_def singleQuoteOf_def bestOfBoth_def hasAutoRoute_def
      outputAmountStr_def mkRoute_def hasAmount_def amountOf_def parse_eval Math_pow10_def
      fl_values toFixed_def showNat_eval)
     (simp add: eval_nat_numeral)

subsection \<open>Where a price that is not positive can come from\<close>

lemma findsPositive_orElse: "findsPositive f \<Longrightarrow> findsPositive g \<Longrightarrow> findsPositive (orElse f g)"
  unfolding findsPositive_def orElse_def
  by (auto split: prod.splits option.splits)

lemma fl_11_10: "fl (11 / 10) = Fin (2476979795053773 / 2 ^ 51)"
  by (subst fl_eval [where e = "0"]) (simp_all add: pow2_def roundEven_def Let_def)

lemma fl_9_10: "fl (9 / 10) = Fin (8106479329266893 / 2 ^ 53)"
  by (subst fl_eval [where e = "- 1"]) (simp_all add: pow2_def roundEven_def Let_def)

lemma nativePrices_positive: "getProperty nativePrices c = Own p \<Longrightarrow> positive p"
  by (auto simp: getProperty_def nativePrices_def positive_def fl_11_10 fl_9_10
      split: if_splits)

lemma getProperty_own: "c \<notin> set objectPrototype \<Longrightarrow> getProperty obj c \<noteq> Inherited k"
  by (simp add: getProperty_def split: option.splits)

lemma validPriceInUsd_positive: "validPriceInUsd v = Some p \<Longrightarrow> positive p"
  by (cases v) (auto simp: positive_def split: if_splits)

lemma validPriceUSD_positive: "validPriceUSD v = Some p \<Longrightarrow> positive p"
  by (cases v) (auto simp: positive_def split: if_splits)

lemma findsPositive_native:
  assumes "feedPositive w" "c \<notin> set objectPrototype"
  shows "findsPositive (nativeStrategy w c t)"
  using assms(1) getProperty_own [OF assms(2), of nativePrices]
    getProperty_own [OF assms(2), of nativeTokenSymbols]
  unfolding findsPositive_def nativeStrategy_def fetchCoinGeckoSimple_def feedPositive_def
  by (auto simp: Let_def split: if_splits option.splits prod.splits property.splits
      dest: nativePrices_positive)

lemma findsPositive_bungee: "findsPositive (bungeeStrategy w c a)"
  unfolding findsPositive_def bungeeStrategy_def
  by (auto simp: Let_def split: option.splits prod.splits property.splits
      dest: validPriceInUsd_positive)

lemma findsPositive_lifi: "findsPositive (lifiStrategy w c a)"
  unfolding findsPositive_def lifiStrategy_def
  by (auto simp: Let_def split: option.splits prod.splits property.splits
      dest: validPriceUSD_positive)

lemma findsPositive_contract:
  assumes "feedPositive w"
  shows "findsPositive (contractStrategy w a)"
  using assms
  unfolding findsPositive_def contractStrategy_def fetchCoinGeckoSimple_def feedPositive_def
  by (auto simp: Let_def split: property.splits)

lemma findsPositive_platform:
  assumes "feedPositive w"
  shows "findsPositive (platformStrategy w c t a)"
  using assms
  unfolding findsPositive_def platformStrategy_def fetchCoinGeckoToken_def feedPositive_def
  by (auto simp: Let_def split: property.splits if_splits)

lemma findsPositive_cascade:
  assumes "feedPositive w" "c \<notin> set objectPrototype"
  shows "findsPositive (cascade w c t)"
  by (simp add: cascade_def Let_def findsPositive_orElse findsPositive_native [OF assms]
      findsPositive_bungee findsPositive_lifi findsPositive_contract [OF assms(1)]
      findsPositive_platform [OF assms(1)])

lemma resolvePrice_positive:
  assumes "feedPositive w" "c \<notin> set objectPrototype"
  shows "positivePrice (fst (resolvePrice w c t s))"
proof (cases "cascade w c t s")
  case (Pair r s1)
  show ?thesis
  proof (cases r)
    case None
    then show ?thesis
      using Pair by (simp add: resolvePrice_def lastResort_def positive_def Let_def)
  next
    case (Some p)
    then have "positivePrice p"
      using findsPositive_cascade [OF assms, of t] Pair by (auto simp: findsPositive_def)
    then show ?thesis using Pair Some by (simp add: resolvePrice_def Let_def)
  qed
qed

text \<open>
  When the spot-price feed quotes positive prices, the cached price of the token, if
  any, is positive and the chain id is not the name of an inherited property,
  \<open>getTokenPrice\<close> returns a positive number.
\<close>

lemma getTokenPrice_positive:
  assumes "feedPositive w" "c \<notin> set objectPrototype"
    and "\<forall>e. cache s (cacheKey_of c t) = Some e \<longrightarrow> positivePrice (price e)"
  shows "positivePrice (fst (getTokenPrice w c t s))"
  using assms(3) resolvePrice_positive [OF assms(1,2)]
  by (auto simp: getTokenPrice_def Date_now_def split: option.splits)

text \<open>
  For a chain id that names an inherited property and the native token, what
  \<open>getTokenPrice\<close> returns and caches when the feed does not answer is that property.
\<close>

lemma inherited_price:
  "fst (getTokenPrice offline ''constructor'' zeroAddress start) = Builtin ''constructor''"
  by (simp add: getTokenPrice_def start_def resolvePrice_def cascade_def orElse_def
      nativeStrategy_def native_zero getProperty_def nativeTokenSymbols_def nativePrices_def
      objectPrototype_def fetchCoinGeckoSimple_def offline_def cgUsd_def Let_def)

end
